theory Spec2Isabelle
  imports Complex_Main "HOL-Library.Sublist"
begin

section \<open>JavaScript strings\<close>

text \<open>
  A JavaScript string is a sequence of UTF-16 code units: \<open>length\<close>, \<open>substring\<close>,
  \<open>trim\<close> and a regular expression without the \<open>u\<close> flag all work on code units. A
  string is modelled as the list of its code units, each given by its number; \<open>js\<close> turns
  an ASCII literal into that list.
\<close>

type_synonym jsstring = "nat list"

definition js :: "string \<Rightarrow> jsstring" where
  "js s = map of_char s"

text \<open>The character classes of ECMAScript regular expressions (no \<open>u\<close>, no \<open>i\<close> flag).\<close>

definition is_line_terminator :: "nat \<Rightarrow> bool" where
  \<comment> \<open>LF, CR, U+2028, U+2029: what \<open>.\<close> refuses and what \<open>^\<close> and \<open>$\<close> look at under \<open>m\<close>\<close>
  "is_line_terminator c \<longleftrightarrow> c = 10 \<or> c = 13 \<or> c = 8232 \<or> c = 8233"

definition is_digit :: "nat \<Rightarrow> bool" where
  \<comment> \<open>\<open>\d\<close>\<close>
  "is_digit c \<longleftrightarrow> 48 \<le> c \<and> c \<le> 57"

definition is_word_char :: "nat \<Rightarrow> bool" where
  \<comment> \<open>\<open>\w\<close>: letters, digits and the underscore\<close>
  "is_word_char c \<longleftrightarrow> (65 \<le> c \<and> c \<le> 90) \<or> (97 \<le> c \<and> c \<le> 122) \<or> is_digit c \<or> c = 95"

definition is_space :: "nat \<Rightarrow> bool" where
  \<comment> \<open>\<open>\s\<close>, and what \<open>trim\<close> strips: WhiteSpace and LineTerminator of the standard\<close>
  "is_space c \<longleftrightarrow>
     c = 9 \<or> c = 11 \<or> c = 12 \<or> c = 32 \<or> c = 160 \<or> c = 5760 \<or> (8192 \<le> c \<and> c \<le> 8202) \<or>
     c = 8239 \<or> c = 8287 \<or> c = 12288 \<or> c = 65279 \<or> is_line_terminator c"

definition truthy :: "jsstring option \<Rightarrow> bool" where
  \<comment> \<open>a value that is \<open>undefined\<close>, \<open>null\<close> or the empty string is falsy\<close>
  "truthy v \<longleftrightarrow> (case v of None \<Rightarrow> False | Some s \<Rightarrow> s \<noteq> [])"

definition trim :: "jsstring \<Rightarrow> jsstring" where
  \<comment> \<open>\<open>String.prototype.trim\<close>\<close>
  "trim s = rev (dropWhile is_space (rev (dropWhile is_space s)))"

fun js_includes :: "jsstring \<Rightarrow> jsstring \<Rightarrow> bool" where
  \<comment> \<open>\<open>String.prototype.includes\<close>: the needle occurs somewhere in the string\<close>
  "js_includes [] needle = (needle = [])"
| "js_includes (c # cs) needle = (prefix needle (c # cs) \<or> js_includes cs needle)"

definition substring :: "jsstring \<Rightarrow> nat \<Rightarrow> nat \<Rightarrow> jsstring" where
  \<comment> \<open>\<open>String.prototype.substring\<close>: both ends clamped to the length, swapped if reversed\<close>
  "substring s a b =
     (let a' = min a (length s); b' = min b (length s)
      in take (max a' b' - min a' b') (drop (min a' b') s))"

fun join :: "jsstring \<Rightarrow> jsstring list \<Rightarrow> jsstring" where
  \<comment> \<open>\<open>Array.prototype.join\<close> of an array of strings\<close>
  "join sep [] = []"
| "join sep [x] = x"
| "join sep (x # y # ys) = x @ sep @ join sep (y # ys)"

section \<open>URL parser\<close>

text \<open>
  \<^verbatim>\<open>/^.*(youtu.be\/|v\/|u\/\w\/|embed\/|watch\?v=|&v=)([^#&?]*).*/\<close>

  Each alternative of the first group is a sequence of one-character atoms. The dot of
  \<open>youtu.be\<close> is not escaped in the source: it is the wildcard.
\<close>

datatype atom = Lit nat | Dot | Word

fun atom_ok :: "atom \<Rightarrow> nat \<Rightarrow> bool" where
  "atom_ok (Lit l) c = (c = l)"
| "atom_ok Dot c = (\<not> is_line_terminator c)"
| "atom_ok Word c = is_word_char c"

fun match_atoms :: "atom list \<Rightarrow> jsstring \<Rightarrow> jsstring option" where
  \<comment> \<open>the atoms matched at the head of the string: what follows the match\<close>
  "match_atoms [] s = Some s"
| "match_atoms (a # as) [] = None"
| "match_atoms (a # as) (c # cs) = (if atom_ok a c then match_atoms as cs else None)"

fun first_alternative :: "atom list list \<Rightarrow> jsstring \<Rightarrow> jsstring option" where
  \<comment> \<open>\<open>a|b|...\<close>: the alternatives tried in the order written\<close>
  "first_alternative [] s = None"
| "first_alternative (alt # alts) s =
     (case match_atoms alt s of Some r \<Rightarrow> Some r | None \<Rightarrow> first_alternative alts s)"

definition lit :: "string \<Rightarrow> atom list" where
  "lit s = map Lit (js s)"

definition url_shapes :: "atom list list" where
  "url_shapes =
     [lit ''youtu'' @ [Dot] @ lit ''be/'',
      lit ''v/'',
      lit ''u/'' @ [Word] @ lit ''/'',
      lit ''embed/'',
      lit ''watch?v='',
      lit ''&v='']"

definition group1 :: "jsstring \<Rightarrow> jsstring option" where
  "group1 s = first_alternative url_shapes s"

fun match_prefix :: "jsstring \<Rightarrow> jsstring option" where
  \<comment> \<open>\<open>^.*(...)\<close>: the greedy \<open>.*\<close> takes a character that is no line terminator first and
      gives it back only when the rest then fails, so the last position of the first line
      where the group matches wins. The result is what follows the group.\<close>
  "match_prefix [] = group1 []"
| "match_prefix (c # cs) =
     (if is_line_terminator c then group1 (c # cs)
      else (case match_prefix cs of Some r \<Rightarrow> Some r | None \<Rightarrow> group1 (c # cs)))"

definition is_delimiter :: "nat \<Rightarrow> bool" where
  \<comment> \<open>what \<open>[^#&?]\<close> refuses\<close>
  "is_delimiter c \<longleftrightarrow> c = 35 \<or> c = 38 \<or> c = 63"

definition group2 :: "jsstring \<Rightarrow> jsstring" where
  \<comment> \<open>\<open>([^#&?]*)\<close>, greedy, at the head of the string: it always matches\<close>
  "group2 r = takeWhile (\<lambda>c. \<not> is_delimiter c) r"

definition url_match :: "jsstring \<Rightarrow> jsstring option" where
  \<comment> \<open>\<open>url.match(regExp)\<close>, reduced to its second group; the closing \<open>.*\<close> always matches\<close>
  "url_match url =
     (case match_prefix url of
        None \<Rightarrow> None
      | Some r \<Rightarrow> Some (group2 r))"

definition extractVideoId :: "jsstring \<Rightarrow> jsstring option" where
  "extractVideoId url =
     (case url_match url of
        None \<Rightarrow> None
      | Some m2 \<Rightarrow> if length m2 = 11 then Some m2 else None)"

section \<open>Duration formatter\<close>

text \<open>
  \<^verbatim>\<open>/PT(\d+H)?(\d+M)?(\d+S)?/\<close> is not anchored: \<open>match\<close> finds the first \<open>PT\<close> of the
  string, and every group after it is optional, so the match succeeds as soon as \<open>PT\<close>
  is found.
\<close>

fun find_PT :: "jsstring \<Rightarrow> jsstring option" where
  \<comment> \<open>the search for \<open>PT\<close> from each position in turn: what follows the first one\<close>
  "find_PT [] = None"
| "find_PT (c # cs) =
     (case match_atoms (lit ''PT'') (c # cs) of Some r \<Rightarrow> Some r | None \<Rightarrow> find_PT cs)"

definition optional_group :: "nat \<Rightarrow> jsstring \<Rightarrow> jsstring option \<times> jsstring" where
  \<comment> \<open>\<open>(\d+X)?\<close>: the greedy digits and the letter, or nothing (the group is then
      \<open>undefined\<close>); fewer digits never help, the next character being a digit\<close>
  "optional_group x s =
     (let ds = takeWhile is_digit s
      in case dropWhile is_digit s of
           [] \<Rightarrow> (None, s)
         | c # r \<Rightarrow> if ds \<noteq> [] \<and> c = x then (Some (ds @ [x]), r) else (None, s))"

definition duration_match ::
  "jsstring \<Rightarrow> (jsstring option \<times> jsstring option \<times> jsstring option) option" where
  \<comment> \<open>\<open>duration.match(...)\<close>: \<open>null\<close>, or the three groups\<close>
  "duration_match d =
     (case find_PT d of
        None \<Rightarrow> None
      | Some r0 \<Rightarrow>
          (let (m1, r1) = optional_group 72 r0;
               (m2, r2) = optional_group 77 r1;
               (m3, r3) = optional_group 83 r2
           in Some (m1, m2, m3)))"

definition or_empty :: "jsstring option \<Rightarrow> jsstring" where
  \<comment> \<open>\<open>m || ''\<close>\<close>
  "or_empty m = (case m of None \<Rightarrow> [] | Some s \<Rightarrow> s)"

definition formatDuration :: "jsstring option \<Rightarrow> jsstring" where
  \<comment> \<open>\<open>replace('H', '')\<close> with a string pattern removes the first \<open>H\<close>: \<open>remove1\<close>\<close>
  "formatDuration duration =
     (case duration of
        None \<Rightarrow> js ''Unknown''
      | Some d \<Rightarrow>
          if d = [] then js ''Unknown''
          else (case duration_match d of
                  None \<Rightarrow> d
                | Some (m1, m2, m3) \<Rightarrow>
                    (let hours = remove1 72 (or_empty m1);
                         minutes = remove1 77 (or_empty m2);
                         seconds = remove1 83 (or_empty m3);
                         result = (if hours \<noteq> [] then hours @ js ''h '' else [])
                                @ (if minutes \<noteq> [] then minutes @ js ''m '' else [])
                                @ (if seconds \<noteq> [] then seconds @ js ''s'' else [])
                     in if trim result \<noteq> [] then trim result else d)))"

section \<open>Formatting cleanup\<close>

text \<open>
  Each \<open>replace\<close> with a \<open>g\<close> pattern walks the text from the left: where the
  pattern matches, the replacement is written and the walk goes on after the match;
  elsewhere one character is copied. No pattern of the four matches the empty string.
\<close>

fun fix_quadruple :: "jsstring \<Rightarrow> jsstring" where
  \<comment> \<open>\<^verbatim>\<open>.replace(/\*\*\*\*/g, '**')\<close>\<close>
  "fix_quadruple (a # b # c # d # rest) =
     (if a = 42 \<and> b = 42 \<and> c = 42 \<and> d = 42 then js ''**'' @ fix_quadruple rest
      else a # fix_quadruple (b # c # d # rest))"
| "fix_quadruple s = s"

definition numbered_match :: "jsstring \<Rightarrow> (jsstring \<times> jsstring) option" where
  \<comment> \<open>\<^verbatim>\<open>(\d+)\.\s*\<close> at the head of the text: the digits captured and what follows the
      match. The digits are greedy, and fewer of them never help: the next is a digit.\<close>
  "numbered_match s =
     (let ds = takeWhile is_digit s
      in case dropWhile is_digit s of
           [] \<Rightarrow> None
         | c # r \<Rightarrow> if ds \<noteq> [] \<and> c = 46 then Some (ds, dropWhile is_space r) else None)"

function format_numbered :: "jsstring \<Rightarrow> jsstring" where
  \<comment> \<open>\<^verbatim>\<open>.replace(/(\d+)\.\s*/g, '\n\n**$1.** ')\<close>\<close>
  "format_numbered [] = []"
| "format_numbered (c # cs) =
     (case numbered_match (c # cs) of
        Some (ds, r) \<Rightarrow> js ''\<newline>\<newline>**'' @ ds @ js ''.** '' @ format_numbered r
      | None \<Rightarrow> c # format_numbered cs)"
  by pat_completeness auto
termination
proof (relation "measure length")
  fix c :: nat and cs m ds r
  assume "numbered_match (c # cs) = Some m" and "(ds, r) = m"
  then obtain d r' where d: "dropWhile is_digit (c # cs) = d # r'"
    and r: "r = dropWhile is_space r'"
    by (auto simp: numbered_match_def Let_def split: list.splits if_splits)
  have "length r \<le> length r'"
    using r by (simp add: length_dropWhile_le)
  moreover have "length (d # r') \<le> length (c # cs)"
    using d length_dropWhile_le [of is_digit "c # cs"] by simp
  ultimately show "(r, c # cs) \<in> measure length" by simp
qed simp_all

function collapse_newlines :: "jsstring \<Rightarrow> jsstring" where
  \<comment> \<open>\<^verbatim>\<open>.replace(/\n{3,}/g, '\n\n')\<close>: a greedy run of three newlines or more\<close>
  "collapse_newlines [] = []"
| "collapse_newlines (c # cs) =
     (if 3 \<le> length (takeWhile (\<lambda>x. x = 10) (c # cs))
      then js ''\<newline>\<newline>'' @ collapse_newlines (dropWhile (\<lambda>x. x = 10) (c # cs))
      else c # collapse_newlines cs)"
  by pat_completeness auto
termination
  by (relation "measure length") (auto simp: length_dropWhile_le less_Suc_eq_le split: if_splits)

function bold_headers :: "jsstring \<Rightarrow> jsstring" where
  \<comment> \<open>\<^verbatim>\<open>.replace(/^(.+):$/gm, '**$1:**')\<close>, called at the start of a line. Under \<open>m\<close> the
      match starts at the start of a line and ends at its end; \<open>.+\<close> stays on the line, so
      a line matches when it ends with a colon after at least one other character.\<close>
  "bold_headers s =
     (let line = takeWhile (\<lambda>c. \<not> is_line_terminator c) s
      in (if 2 \<le> length line \<and> last line = 58
          then js ''**'' @ butlast line @ js '':**'' else line)
         @ (case dropWhile (\<lambda>c. \<not> is_line_terminator c) s of
              [] \<Rightarrow> []
            | t # r \<Rightarrow> t # bold_headers r))"
  by pat_completeness auto
termination
proof (relation "measure length")
  fix s :: jsstring and line t r
  assume "dropWhile (\<lambda>c. \<not> is_line_terminator c) s = t # r"
  then have "length (t # r) \<le> length s"
    using length_dropWhile_le [of "\<lambda>c. \<not> is_line_terminator c" s] by simp
  then show "(r, s) \<in> measure length" by simp
qed simp

declare bold_headers.simps [simp del]

definition cleanFormatting :: "jsstring \<Rightarrow> jsstring" where
  "cleanFormatting text =
     trim (bold_headers (collapse_newlines (format_numbered (fix_quadruple text))))"

section \<open>The outside world\<close>

text \<open>
  A thrown \<open>Error\<close> is a value carrying its message, and \<open>json\<close> is a value as the
  APIs exchange it. The services the handlers call
  (the video metadata API behind \<open>axios.get\<close>, the transcript library, the generative
  model, the clock and the locale formatting of numbers and dates) and the two
  credentials read at start-up make up the environment of a request.
\<close>

datatype error = Error jsstring

datatype json =
  JNull | JBool bool | JNum nat | JStr jsstring | JArr "json list" | JObj "(string \<times> json) list"

record video =
  \<comment> \<open>an item of \<open>response.data.items\<close>, asked with its \<open>snippet\<close>, \<open>statistics\<close> and
      \<open>contentDetails\<close> parts; a field the API leaves out is \<open>None\<close>\<close>
  snippet_title :: "jsstring option"
  snippet_description :: "jsstring option"
  snippet_channelTitle :: "jsstring option"
  snippet_publishedAt :: "jsstring option"
  snippet_tags :: "jsstring list option"
  snippet_categoryId :: "jsstring option"
  statistics_viewCount :: "jsstring option"
  statistics_likeCount :: "jsstring option"
  statistics_commentCount :: "jsstring option"
  contentDetails_duration :: "jsstring option"
  snippet_thumbnails :: "json option"

record generationConfig =
  temperature :: real
  topP :: real
  maxOutputTokens :: nat

record env =
  GEMINI_API_KEY :: "jsstring option"
  YOUTUBE_API_KEY :: "jsstring option"
  axios_get_videos :: "jsstring \<Rightarrow> jsstring \<Rightarrow> error + video list option"
    \<comment> \<open>the call for a video id with a key: it throws, or answers \<open>data.items\<close>\<close>
  fetchTranscript :: "jsstring \<Rightarrow> error + jsstring list"
    \<comment> \<open>\<open>YoutubeTranscript.fetchTranscript\<close>: it throws, or answers the fragments, each
        given here by its \<open>text\<close>\<close>
  generateContent :: "jsstring \<Rightarrow> jsstring \<Rightarrow> generationConfig \<Rightarrow> error + jsstring"
    \<comment> \<open>the model named, asked with a prompt: it throws, or \<open>response.text()\<close>\<close>
  toISOString_now :: jsstring
  number_toLocaleString :: "jsstring \<Rightarrow> jsstring"
  date_toLocaleDateString :: "jsstring \<Rightarrow> jsstring"

section \<open>Metadata and transcript fetchers\<close>

record metadata =
  title :: "jsstring option"
  description :: "jsstring option"
  channelTitle :: "jsstring option"
  publishedAt :: "jsstring option"
  tags :: "jsstring list option"
  categoryId :: "jsstring option"
  viewCount :: "jsstring option"
  likeCount :: "jsstring option"
  commentCount :: "jsstring option"
  duration :: "jsstring option"
  thumbnails :: "json option"

definition video_metadata_of :: "video \<Rightarrow> metadata" where
  "video_metadata_of v =
     \<lparr>title = snippet_title v,
      description = Some (or_empty (snippet_description v)),
      channelTitle = snippet_channelTitle v,
      publishedAt = snippet_publishedAt v,
      tags = Some (case snippet_tags v of None \<Rightarrow> [] | Some ts \<Rightarrow> ts),
      categoryId = snippet_categoryId v,
      viewCount = statistics_viewCount v,
      likeCount = statistics_likeCount v,
      commentCount = statistics_commentCount v,
      duration = contentDetails_duration v,
      thumbnails = snippet_thumbnails v\<rparr>"

definition fetch_video :: "env \<Rightarrow> jsstring \<Rightarrow> error + metadata" where
  \<comment> \<open>the \<open>try\<close> block of \<open>getVideoMetadata\<close>\<close>
  "fetch_video e videoId =
     (case YOUTUBE_API_KEY e of
        None \<Rightarrow> Inl (Error (js ''YouTube API key not configured''))
      | Some key \<Rightarrow>
          if key = [] then Inl (Error (js ''YouTube API key not configured''))
          else (case axios_get_videos e videoId key of
                  Inl err \<Rightarrow> Inl err
                | Inr None \<Rightarrow> Inl (Error (js ''Video not found''))
                | Inr (Some []) \<Rightarrow> Inl (Error (js ''Video not found''))
                | Inr (Some (v # _)) \<Rightarrow> Inr (video_metadata_of v)))"

definition getVideoMetadata :: "env \<Rightarrow> jsstring \<Rightarrow> error + metadata" where
  \<comment> \<open>the \<open>catch\<close> block throws again, with a longer message\<close>
  "getVideoMetadata e videoId =
     (case fetch_video e videoId of
        Inl (Error msg) \<Rightarrow> Inl (Error (js ''Failed to fetch video metadata: '' @ msg))
      | Inr md \<Rightarrow> Inr md)"

definition getVideoTranscript :: "env \<Rightarrow> jsstring \<Rightarrow> error + jsstring option" where
  \<comment> \<open>\<open>Inr None\<close> is the \<open>null\<close> returned by the \<open>catch\<close> block\<close>
  "getVideoTranscript e videoId =
     (case fetchTranscript e videoId of
        Inl err \<Rightarrow> Inr None
      | Inr items \<Rightarrow> Inr (Some (join (js '' '') items)))"

section \<open>Prompt composer\<close>

abbreviation (input) tv :: jsstring where "tv \<equiv> [55357, 56570]"  \<comment> \<open>U+1F4FA\<close>
abbreviation (input) page :: jsstring where "page \<equiv> [55357, 56516]"  \<comment> \<open>U+1F4C4\<close>
abbreviation (input) label :: jsstring where "label \<equiv> [55356, 57335, 65039]"  \<comment> \<open>U+1F3F7 U+FE0F\<close>
abbreviation (input) memo :: jsstring where "memo \<equiv> [55357, 56541]"  \<comment> \<open>U+1F4DD\<close>
abbreviation (input) target :: jsstring where "target \<equiv> [55356, 57263]"  \<comment> \<open>U+1F3AF\<close>
abbreviation (input) clapper :: jsstring where "clapper \<equiv> [55356, 57260]"  \<comment> \<open>U+1F3AC\<close>
abbreviation (input) key :: jsstring where "key \<equiv> [55357, 56593]"  \<comment> \<open>U+1F511\<close>
abbreviation (input) bulb :: jsstring where "bulb \<equiv> [55357, 56481]"  \<comment> \<open>U+1F4A1\<close>
abbreviation (input) people :: jsstring where "people \<equiv> [55357, 56421]"  \<comment> \<open>U+1F465\<close>
abbreviation (input) books :: jsstring where "books \<equiv> [55357, 56538]"  \<comment> \<open>U+1F4DA\<close>
abbreviation (input) star :: jsstring where "star \<equiv> [11088]"  \<comment> \<open>U+2B50\<close>
abbreviation (input) clipboard :: jsstring where "clipboard \<equiv> [55357, 56523]"  \<comment> \<open>U+1F4CB\<close>
abbreviation (input) palette :: jsstring where "palette \<equiv> [55356, 57256]"  \<comment> \<open>U+1F3A8\<close>
abbreviation (input) apostrophe :: jsstring where "apostrophe \<equiv> [39]"
abbreviation (input) quote :: jsstring where "quote \<equiv> [34]"

definition template_string :: "jsstring option \<Rightarrow> jsstring" where
  \<comment> \<open>a value substituted in a template literal: \<open>undefined\<close> is written out\<close>
  "template_string v = (case v of None \<Rightarrow> js ''undefined'' | Some s \<Rightarrow> s)"

definition video_details :: "env \<Rightarrow> metadata \<Rightarrow> jsstring" where
  "video_details e md =
     js ''Please analyze this YouTube video using the following information:\<newline>''
     @ js ''\<newline>**'' @ tv @ js '' VIDEO DETAILS:**\<newline>- Title: '' @ template_string (title md)
     @ js ''\<newline>- Channel: '' @ template_string (channelTitle md)
     @ js ''\<newline>- Duration: '' @ formatDuration (duration md)
     @ js ''\<newline>- Views: ''
     @ (case viewCount md of
          None \<Rightarrow> js ''Unknown''
        | Some n \<Rightarrow> if n = [] then js ''Unknown'' else number_toLocaleString e n)
     @ js ''\<newline>- Published: ''
     @ (case publishedAt md of
          None \<Rightarrow> js ''Unknown''
        | Some d \<Rightarrow> if d = [] then js ''Unknown'' else date_toLocaleDateString e d)
     @ js ''\<newline>- Likes: ''
     @ (case likeCount md of
          None \<Rightarrow> js ''Unknown''
        | Some n \<Rightarrow> if n = [] then js ''Unknown'' else number_toLocaleString e n)"

definition description_section :: "metadata \<Rightarrow> jsstring" where
  "description_section md =
     (case description md of
        None \<Rightarrow> js ''No description available''
      | Some d \<Rightarrow>
          if d = [] then js ''No description available''
          else substring d 0 1000 @ (if length d > 1000 then js ''...'' else []))"

definition tags_section :: "metadata \<Rightarrow> jsstring" where
  \<comment> \<open>\<open>slice(0, 10)\<close> of an array is \<open>take 10\<close>\<close>
  "tags_section md =
     (case tags md of
        None \<Rightarrow> []
      | Some ts \<Rightarrow>
          if length ts > 0 then js ''**'' @ label @ js '' TAGS:** '' @ join (js '', '') (take 10 ts)
          else [])"

definition no_transcript_statement :: jsstring where
  "no_transcript_statement =
     js ''**'' @ memo @ js '' TRANSCRIPT:** Not available (video may not have captions)''"

definition transcript_section :: "jsstring option \<Rightarrow> jsstring" where
  \<comment> \<open>\<open>transcript ? ... : ...\<close>: \<open>null\<close> and the empty string take the second branch\<close>
  "transcript_section transcript =
     (case transcript of
        None \<Rightarrow> no_transcript_statement
      | Some t \<Rightarrow>
          if t = [] then no_transcript_statement
          else js ''**'' @ memo @ js '' VIDEO TRANSCRIPT:**\<newline>'' @ substring t 0 6000
               @ (if length t > 6000 then js ''...(transcript continues)'' else []))"

definition analysis_request :: jsstring where
  "analysis_request =
     js ''**'' @ target @ js '' ANALYSIS REQUEST:**\<newline>''
     @ js ''Based on the above information, please provide a comprehensive analysis ''
     @ js ''with the following structure:\<newline>''
     @ js ''\<newline>''
     @ clapper @ js '' **Video Overview**\<newline>''
     @ js ''What is this video about? What'' @ apostrophe @ js ''s the main topic?\<newline>\<newline>''
     @ target @ js '' **Purpose & Goals** \<newline>''
     @ js ''What is the creator trying to achieve or teach?\<newline>\<newline>''
     @ key @ js '' **Key Points & Takeaways**\<newline>''
     @ js ''List the most important points discussed (based on transcript if available)\<newline>''
     @ js ''\<newline>''
     @ bulb @ js '' **Main Insights & Lessons**\<newline>''
     @ js ''What are the key insights viewers will gain?\<newline>\<newline>''
     @ people @ js '' **Target Audience**\<newline>''
     @ js ''Who would benefit most from watching this video?\<newline>\<newline>''
     @ books @ js '' **Content Type & Style**\<newline>''
     @ js ''Educational, entertainment, tutorial, review, etc.\<newline>\<newline>''
     @ star @ js '' **Value Proposition**\<newline>''
     @ js ''What specific value does this video provide?\<newline>\<newline>''
     @ clipboard @ js '' **Summary**\<newline>''
     @ js ''Provide a comprehensive summary of the content\<newline>\<newline>''
     @ js ''IMPORTANT: Use the emoji headers exactly as shown above (''
     @ clapper @ js '' **Video Overview**, not '' @ quote @ js ''Video Overview'' @ quote
     @ js '' followed by '' @ quote @ clapper @ js '' Video Overview'' @ quote
     @ js ''). Do not repeat section titles.''"

definition prompt_template :: "env \<Rightarrow> metadata \<Rightarrow> jsstring option \<Rightarrow> jsstring" where
  \<comment> \<open>the template literal that \<open>prompt\<close> starts from\<close>
  "prompt_template e md transcript =
     video_details e md
     @ js ''\<newline>\<newline>**'' @ page @ js '' DESCRIPTION:**\<newline>''
     @ description_section md
     @ js ''\<newline>\<newline>''
     @ tags_section md
     @ js ''\<newline>\<newline>''
     @ transcript_section transcript
     @ js ''\<newline>\<newline>''
     @ analysis_request"

definition formatting_2_0 :: jsstring where
  "formatting_2_0 =
     js ''\<newline>\<newline>**FORMATTING INSTRUCTIONS:** Please structure your response with ''
     @ js ''clear emoji headers ('' @ clapper @ js '', '' @ target @ js '', '' @ key
     @ js '', etc.) and use bullet points with * for lists. Use **bold** for emphasis.''"

definition formatting_default :: jsstring where
  "formatting_default =
     js ''\<newline>\<newline>**FORMATTING INSTRUCTIONS:** Please use the emoji section headers ''
     @ js ''exactly as specified above. Do NOT write plain text headers before emoji headers. ''
     @ js ''Start each section directly with the emoji (e.g., ''
     @ apostrophe @ clapper @ js '' **Video Overview**'' @ apostrophe @ js '' not ''
     @ apostrophe @ js ''Video Overview'' @ apostrophe @ js '' followed by ''
     @ apostrophe @ clapper @ js '' Video Overview'' @ apostrophe @ js '').''"

record request_body =
  \<comment> \<open>the three fields read from the body; a missing field is \<open>None\<close>\<close>
  youtube_link :: "jsstring option"
  model :: "jsstring option"
  additional_prompt :: "jsstring option"

definition modelName :: "request_body \<Rightarrow> jsstring" where
  \<comment> \<open>\<open>model || "gemini-1.5-flash"\<close>\<close>
  "modelName b = (if truthy (model b) then or_empty (model b) else js ''gemini-1.5-flash'')"

definition build_prompt :: "env \<Rightarrow> metadata \<Rightarrow> jsstring option \<Rightarrow> request_body \<Rightarrow> jsstring" where
  \<comment> \<open>\<open>prompt\<close> as it is when \<open>generateContent\<close> is called\<close>
  "build_prompt e md transcript b =
     prompt_template e md transcript
     @ (case additional_prompt b of
          None \<Rightarrow> []
        | Some a \<Rightarrow>
            if a \<noteq> [] \<and> trim a \<noteq> []
            then js ''\<newline>\<newline>**'' @ palette @ js '' SPECIAL INSTRUCTIONS:** '' @ a
            else [])
     @ (if js_includes (modelName b) (js ''2.0'') then formatting_2_0 else formatting_default)"

definition generation_config :: "request_body \<Rightarrow> generationConfig" where
  "generation_config b =
     (if js_includes (modelName b) (js ''2.0'')
      then \<lparr>temperature = 0.6, topP = 0.8, maxOutputTokens = 8192\<rparr>
      else \<lparr>temperature = 0.7, topP = 0.8, maxOutputTokens = 3000\<rparr>)"

section \<open>Responses\<close>

text \<open>
  A response body is the value handed to \<open>JSON.stringify\<close> or to \<open>res.json\<close>. A
  property whose value is \<open>undefined\<close> is left out of the text that is sent, hence
  out of the object here.
\<close>

fun stringify_object :: "(string \<times> json option) list \<Rightarrow> (string \<times> json) list" where
  "stringify_object [] = []"
| "stringify_object ((k, None) # fs) = stringify_object fs"
| "stringify_object ((k, Some v) # fs) = (k, v) # stringify_object fs"

definition field :: "string \<Rightarrow> json \<Rightarrow> json option" where
  \<comment> \<open>the property of an object, for reading a response\<close>
  "field k j = (case j of JObj fs \<Rightarrow> map_of fs k | _ \<Rightarrow> None)"

record response =
  statusCode :: nat
  headers :: "(string \<times> string) list"
  body :: "json option"  \<comment> \<open>\<open>None\<close> is the empty body of the preflight answer\<close>

record event =
  httpMethod :: jsstring
  parsed_body :: "error + request_body"
    \<comment> \<open>\<open>JSON.parse(event.body)\<close> and the reading of its three fields: thrown, or read\<close>

definition cors_headers :: "(string \<times> string) list" where
  "cors_headers =
     [(''Access-Control-Allow-Origin'', ''*''),
      (''Access-Control-Allow-Headers'', ''Content-Type''),
      (''Access-Control-Allow-Methods'', ''GET, POST, PUT, DELETE'')]"

definition error_response :: "nat \<Rightarrow> string \<Rightarrow> response" where
  "error_response code msg =
     \<lparr>statusCode = code, headers = cors_headers,
      body = Some (JObj [(''error'', JStr (js msg))])\<rparr>"

section \<open>Request handler: the single-invocation function\<close>

definition placeholder_metadata :: metadata where
  \<comment> \<open>what the \<open>catch\<close> on \<open>getVideoMetadata\<close> returns: three fields, the others missing\<close>
  "placeholder_metadata =
     \<lparr>title = Some (js ''Title unavailable''),
      description = Some (js ''Metadata unavailable''),
      channelTitle = Some (js ''Unknown''),
      publishedAt = None, tags = None, categoryId = None, viewCount = None,
      likeCount = None, commentCount = None, duration = None, thumbnails = None\<rparr>"

definition fetch_metadata :: "env \<Rightarrow> jsstring \<Rightarrow> metadata" where
  \<comment> \<open>\<open>getVideoMetadata(videoId).catch(...)\<close>\<close>
  "fetch_metadata e videoId =
     (case getVideoMetadata e videoId of Inl err \<Rightarrow> placeholder_metadata | Inr md \<Rightarrow> md)"

definition fetch_transcript :: "env \<Rightarrow> jsstring \<Rightarrow> jsstring option" where
  \<comment> \<open>\<open>getVideoTranscript(videoId).catch(...)\<close>\<close>
  "fetch_transcript e videoId =
     (case getVideoTranscript e videoId of Inl err \<Rightarrow> None | Inr t \<Rightarrow> t)"

definition analysis_result ::
  "env \<Rightarrow> request_body \<Rightarrow> jsstring \<Rightarrow> jsstring \<Rightarrow> metadata \<Rightarrow> jsstring option \<Rightarrow> jsstring \<Rightarrow> json" where
  \<comment> \<open>the object of the 200 answer\<close>
  "analysis_result e b link videoId md transcript summary =
     JObj (stringify_object
       [(''success'', Some (JBool True)),
        (''summary'', Some (JStr summary)),
        (''model_used'', Some (JStr (modelName b))),
        (''video_url'', Some (JStr link)),
        (''video_id'', Some (JStr videoId)),
        (''video_metadata'', Some (JObj (stringify_object
           [(''title'', map_option JStr (title md)),
            (''channel'', map_option JStr (channelTitle md)),
            (''duration'', Some (JStr (formatDuration (duration md)))),
            (''views'', map_option JStr (viewCount md)),
            (''likes'', map_option JStr (likeCount md)),
            (''published'', map_option JStr (publishedAt md))]))),
        (''analysis_quality'', Some (JObj (stringify_object
           [(''has_metadata'', Some (JBool (truthy (title md)))),
            (''has_transcript'', Some (JBool (truthy transcript))),
            (''transcript_length'',
               Some (JNum (if truthy transcript then length (or_empty transcript) else 0))),
            (''content_richness'',
               Some (JStr (if truthy transcript then js ''High'' else js ''Medium'')))]))),
        (''timestamp'', Some (JStr (toISOString_now e)))])"

definition analyze :: "env \<Rightarrow> request_body \<Rightarrow> jsstring \<Rightarrow> jsstring \<Rightarrow> error + response" where
  \<comment> \<open>the \<open>try\<close> block once the video id is known: both fetches, the prompt, the model\<close>
  "analyze e b link videoId =
     (let md = fetch_metadata e videoId;
          transcript = fetch_transcript e videoId
      in case generateContent e (modelName b) (build_prompt e md transcript b)
                (generation_config b) of
           Inl err \<Rightarrow> Inl err
         | Inr generated \<Rightarrow>
             (let summary = (if js_includes (modelName b) (js ''2.0'')
                             then cleanFormatting generated else generated)
              in Inr \<lparr>statusCode = 200, headers = cors_headers,
                      body = Some (analysis_result e b link videoId md transcript summary)\<rparr>))"

definition summarize :: "env \<Rightarrow> event \<Rightarrow> error + response" where
  \<comment> \<open>the \<open>try\<close> block of a POST\<close>
  "summarize e ev =
     (case parsed_body ev of
        Inl err \<Rightarrow> Inl err
      | Inr b \<Rightarrow>
          (case youtube_link b of
             None \<Rightarrow> Inr (error_response 400 ''YouTube link is required'')
           | Some link \<Rightarrow>
               if link = [] then Inr (error_response 400 ''YouTube link is required'')
               else (case extractVideoId link of
                       None \<Rightarrow> Inr (error_response 400 ''Invalid YouTube URL'')
                     | Some videoId \<Rightarrow>
                         if videoId = [] then Inr (error_response 400 ''Invalid YouTube URL'')
                         else analyze e b link videoId)))"

definition health :: "env \<Rightarrow> json" where
  "health e =
     JObj [(''status'', JStr (js ''OK'')),
           (''message'', JStr (js ''YouTube Summarizer API is running'')),
           (''timestamp'', JStr (toISOString_now e)),
           (''geminiApiKeyExists'', JBool (truthy (GEMINI_API_KEY e))),
           (''youtubeApiKeyExists'', JBool (truthy (YOUTUBE_API_KEY e))),
           (''features'', JArr [JStr (js ''Real video metadata''), JStr (js ''Video transcripts''),
                                JStr (js ''AI analysis'')])]"

definition handler :: "env \<Rightarrow> event \<Rightarrow> response" where
  "handler e ev =
     (if httpMethod ev = js ''OPTIONS''
      then \<lparr>statusCode = 200, headers = cors_headers, body = None\<rparr>
      else if httpMethod ev = js ''GET''
      then \<lparr>statusCode = 200, headers = cors_headers, body = Some (health e)\<rparr>
      else if httpMethod ev \<noteq> js ''POST''
      then error_response 405 ''Method not allowed''
      else (case summarize e ev of
              Inr r \<Rightarrow> r
            | Inl (Error msg) \<Rightarrow>
                \<lparr>statusCode = 500, headers = cors_headers,
                 body = Some (JObj [(''error'', JStr (js ''Failed to analyze video'')),
                                    (''details'', JStr msg)])\<rparr>))"

section \<open>Request handler: the persistent server\<close>



section \<open>Predicates on texts\<close>

text \<open>What the properties below say of a text, as functions that compute.\<close>

fun shape_free :: "jsstring \<Rightarrow> bool" where
  \<comment> \<open>no alternative of the first group matches at any position of the string\<close>
  "shape_free [] = True"
| "shape_free (c # cs) = (group1 (c # cs) = None \<and> shape_free cs)"

fun occurs :: "atom list \<Rightarrow> jsstring \<Rightarrow> bool" where
  \<comment> \<open>the atoms match somewhere in the string\<close>
  "occurs p [] = (match_atoms p [] \<noteq> None)"
| "occurs p (c # cs) = (match_atoms p (c # cs) \<noteq> None \<or> occurs p cs)"

definition recognized_shapes :: "atom list list" where
  \<comment> \<open>the shapes as the specification lists them, the dot of \<open>youtu.be\<close> being a dot\<close>
  "recognized_shapes =
     [lit ''watch?v='', lit ''youtu.be/'', lit ''embed/'', lit ''v/'',
      lit ''u/'' @ [Word] @ lit ''/'', lit ''&v='']"

definition contains_recognized_shape :: "jsstring \<Rightarrow> bool" where
  "contains_recognized_shape url = list_ex (\<lambda>shape. occurs shape url) recognized_shapes"

fun has_digit_period :: "jsstring \<Rightarrow> bool" where
  \<comment> \<open>somewhere in the text a digit is followed at once by a period\<close>
  "has_digit_period (a # b # r) = (is_digit a \<and> b = 46 \<or> has_digit_period (b # r))"
| "has_digit_period s = False"

section \<open>Reading a response\<close>

definition response_field :: "string \<Rightarrow> response \<Rightarrow> json option" where
  "response_field k r = (case body r of None \<Rightarrow> None | Some j \<Rightarrow> field k j)"

definition quality :: "string \<Rightarrow> response \<Rightarrow> json option" where
  "quality k r = (case response_field ''analysis_quality'' r of None \<Rightarrow> None | Some q \<Rightarrow> field k q)"

definition metadata_excerpt :: "string \<Rightarrow> response \<Rightarrow> json option" where
  "metadata_excerpt k r = (case response_field ''video_metadata'' r of None \<Rightarrow> None | Some q \<Rightarrow> field k q)"

section \<open>A sample request\<close>

text \<open>
  An environment with no metadata credential, a transcript service that fails and a
  model that answers, and a POST for a well-formed short link.
\<close>

definition example_env :: env where
  "example_env =
     \<lparr>GEMINI_API_KEY = Some (js ''g''), YOUTUBE_API_KEY = None,
      axios_get_videos = (\<lambda>videoId key. Inr None),
      fetchTranscript = (\<lambda>videoId. Inl (Error (js ''Transcript is disabled''))),
      generateContent = (\<lambda>name prompt config. Inr (js ''A summary'')),
      toISOString_now = js ''2024-01-01T00:00:00.000Z'',
      number_toLocaleString = (\<lambda>n. n),
      date_toLocaleDateString = (\<lambda>d. d)\<rparr>"

definition env_model_fails :: env where
  \<comment> \<open>the same, with a model call that throws\<close>
  "env_model_fails =
     example_env\<lparr>generateContent := (\<lambda>name prompt config. Inl (Error (js ''quota exceeded'')))\<rparr>"

definition env_no_fragments :: env where
  \<comment> \<open>the same, with a transcript service that answers no fragment\<close>
  "env_no_fragments = example_env\<lparr>fetchTranscript := (\<lambda>videoId. Inr [])\<rparr>"

definition env_captions :: env where
  \<comment> \<open>the same, with a transcript of two fragments\<close>
  "env_captions =
     example_env\<lparr>fetchTranscript := (\<lambda>videoId. Inr [js ''never gonna'', js ''give''])\<rparr>"

definition example_body :: request_body where
  "example_body =
     \<lparr>youtube_link = Some (js ''https://youtu.be/dQw4w9WgXcQ''), model = None,
      additional_prompt = None\<rparr>"

definition example_event :: event where
  "example_event = \<lparr>httpMethod = js ''POST'', parsed_body = Inr example_body\<rparr>"



section \<open>Evaluation\<close>

text \<open>The definitions that the simplifier unfolds to run a function on a literal.\<close>

lemmas char_classes = is_line_terminator_def is_digit_def is_word_char_def is_space_def
  is_delimiter_def
lemmas url_eval = extractVideoId_def url_match_def group2_def group1_def url_shapes_def lit_def js_def
  char_classes

lemmas cleanup_eval = cleanFormatting_def numbered_match_def bold_headers.simps trim_def
  js_def char_classes

section \<open>Properties of the URL parser\<close>

lemma example_video_id:
  "extractVideoId (js ''https://youtu.be/dQw4w9WgXcQ'') = Some (js ''dQw4w9WgXcQ'')"
  by (simp add: url_eval)

lemma extractVideoId_length: "extractVideoId url = Some t \<Longrightarrow> length t = 11"
  by (auto simp: extractVideoId_def split: option.splits if_splits)

lemma extractVideoId_Nil: "extractVideoId [] = None"
  by (simp add: url_eval)

lemma group1_Nil: "group1 [] = None"
  by (simp add: group1_def url_shapes_def lit_def js_def)

lemma match_prefix_shape_free: "shape_free s \<Longrightarrow> match_prefix s = None"
  by (induction s) (simp_all add: group1_Nil)

lemma extractVideoId_shape_free: "shape_free url \<Longrightarrow> extractVideoId url = None"
  by (simp add: extractVideoId_def url_match_def match_prefix_shape_free)

lemma match_atoms_consumes:
  "match_atoms as s = Some r \<Longrightarrow> \<exists>m. s = m @ r \<and> length m = length as"
proof (induction as s rule: match_atoms.induct)
  case (1 s)
  then show ?case by simp
next
  case (2 a as)
  then show ?case by simp
next
  case (3 a as c cs)
  then obtain m where "cs = m @ r" "length m = length as"
    by (auto split: if_splits)
  then have "c # cs = (c # m) @ r \<and> length (c # m) = length (a # as)" by simp
  then show ?case by blast
qed

lemma first_alternative_consumes:
  "first_alternative alts s = Some r \<Longrightarrow> \<exists>m. s = m @ r \<and> m \<noteq> [] \<or> [] \<in> set alts"
proof (induction alts)
  case Nil
  then show ?case by simp
next
  case (Cons alt alts)
  show ?case
  proof (cases "match_atoms alt s")
    case None
    then show ?thesis using Cons by auto
  next
    case (Some r')
    then have "r' = r" using Cons.prems by simp
    with Some obtain m where "s = m @ r" "length m = length alt"
      using match_atoms_consumes by blast
    then show ?thesis by (cases alt) auto
  qed
qed

lemma group1_consumes: "group1 s = Some r \<Longrightarrow> \<exists>m. s = m @ r \<and> m \<noteq> []"
  using first_alternative_consumes [of url_shapes s r]
  by (auto simp: group1_def url_shapes_def lit_def js_def)

lemma match_prefix_from_shape:
  "match_prefix s = Some r \<Longrightarrow> \<exists>pre m. s = pre @ m @ r \<and> m \<noteq> [] \<and> group1 (m @ r) = Some r"
proof (induction s)
  case Nil
  then show ?case by (simp add: group1_Nil)
next
  case (Cons c cs)
  show ?case
  proof (cases "\<not> is_line_terminator c \<and> match_prefix cs \<noteq> None")
    case True
    then have "match_prefix cs = Some r" using Cons.prems by auto
    then obtain pre m where "cs = pre @ m @ r" "m \<noteq> []" "group1 (m @ r) = Some r"
      using Cons.IH by blast
    then have "c # cs = (c # pre) @ m @ r \<and> m \<noteq> [] \<and> group1 (m @ r) = Some r" by simp
    then show ?thesis by blast
  next
    case False
    then have g: "group1 (c # cs) = Some r"
      using Cons.prems by (auto split: if_splits option.splits)
    then obtain m where "c # cs = m @ r" "m \<noteq> []" using group1_consumes by blast
    with g have "c # cs = [] @ m @ r \<and> m \<noteq> [] \<and> group1 (m @ r) = Some r" by simp
    then show ?thesis by blast
  qed
qed

lemma extractVideoId_from_shape:
  assumes "extractVideoId url = Some t"
  shows "length t = 11 \<and>
         (\<exists>pre m rest. url = pre @ m @ t @ rest \<and> m \<noteq> [] \<and>
            group1 (m @ t @ rest) = Some (t @ rest))"
proof -
  from assms obtain r where r: "match_prefix url = Some r"
    and t: "t = takeWhile (\<lambda>c. \<not> is_delimiter c) r" and l: "length t = 11"
    by (auto simp: extractVideoId_def url_match_def group2_def split: option.splits if_splits)
  from t have "r = t @ dropWhile (\<lambda>c. \<not> is_delimiter c) r" by simp
  then obtain rest where "r = t @ rest" ..
  with match_prefix_from_shape [OF r] l show ?thesis by auto
qed

text \<open>
  Claim C5, on the input that the code treats otherwise. The link
  \<open>https://youtuxbe/dQw4w9WgXcQ\<close> holds none of the shapes \<open>watch?v=\<close>, \<open>youtu.be/\<close>,
  \<open>embed/\<close>, \<open>v/\<close>, \<open>u/<word-char>/\<close>, \<open>&v=\<close>, and the parser returns an identifier for it:
  the dot of \<open>youtu.be\<close> is not escaped in the pattern and stands for any character.
  What holds of every input is \<open>extractVideoId_shape_free\<close> and
  \<open>extractVideoId_from_shape\<close>, with the shapes as the pattern has them.
\<close>

theorem extractVideoId_wildcard_dot:
  "\<not> contains_recognized_shape (js ''https://youtuxbe/dQw4w9WgXcQ'') \<and>
   extractVideoId (js ''https://youtuxbe/dQw4w9WgXcQ'') = Some (js ''dQw4w9WgXcQ'')"
  by (simp add: contains_recognized_shape_def recognized_shapes_def url_eval)

lemma match_prefix_last:
  assumes "list_all (\<lambda>c. \<not> is_line_terminator c) pre"
    and "group1 s = Some r" and "shape_free (tl s)"
  shows "match_prefix (pre @ s) = Some r"
  using assms(1)
proof (induction pre)
  case Nil
  obtain c cs where s: "s = c # cs"
    using assms(2) group1_Nil by (cases s) auto
  have "match_prefix cs = None"
    using assms(3) s by (simp add: match_prefix_shape_free)
  then show ?case using assms(2) s by simp
next
  case (Cons p pre)
  then show ?case by simp
qed

lemma group1_claimed_shapes:
  "group1 (js ''watch?v='' @ s) = Some s"
  "group1 (js ''youtu.be/'' @ s) = Some s"
  "group1 (js ''embed/'' @ s) = Some s"
  "group1 (js ''v/'' @ s) = Some s"
  "is_word_char x \<Longrightarrow> group1 (js ''u/'' @ [x] @ js ''/'' @ s) = Some s"
  by (simp_all add: group1_def url_shapes_def lit_def js_def is_line_terminator_def)

text \<open>
  Claim C6, as the code has it. A link made of a prefix without line break, one of the
  shapes \<open>watch?v=\<close>, \<open>youtu.be/\<close>, \<open>embed/\<close>, \<open>v/\<close>, \<open>u/X/\<close>, a token of 11 characters none
  of which is \<open>#\<close>, \<open>&\<close> or \<open>?\<close>, and a rest that is empty or starts with one of these
  three, gives that token, provided that no shape of the pattern begins further on in the
  link: the greedy \<open>.*\<close> in front of the group makes the last shape of the link the one
  that counts.
\<close>

theorem extractVideoId_recognized:
  assumes "m = js ''watch?v='' \<or> m = js ''youtu.be/'' \<or> m = js ''embed/'' \<or> m = js ''v/'' \<or>
           (\<exists>x. is_word_char x \<and> m = js ''u/'' @ [x] @ js ''/'')"
    and "list_all (\<lambda>c. \<not> is_line_terminator c) pre"
    and "length token = 11" and "list_all (\<lambda>c. \<not> is_delimiter c) token"
    and "rest = [] \<or> is_delimiter (hd rest)"
    and "shape_free (tl (m @ token @ rest))"
  shows "extractVideoId (pre @ m @ token @ rest) = Some token"
proof -
  have g: "group1 (m @ token @ rest) = Some (token @ rest)"
    using assms(1) group1_claimed_shapes [where s = "token @ rest"] by auto
  have p: "match_prefix (pre @ m @ token @ rest) = Some (token @ rest)"
    using match_prefix_last [OF assms(2) g assms(6)] .
  have "group2 (token @ rest) = token"
  proof (cases rest)
    case Nil
    then show ?thesis using assms(4) by (simp add: group2_def list_all_iff)
  next
    case (Cons d ds)
    then have "is_delimiter d" using assms(5) by simp
    then show ?thesis
      using assms(4) Cons by (simp add: group2_def list_all_iff takeWhile_append2)
  qed
  then show ?thesis
    using p assms(3) by (simp add: extractVideoId_def url_match_def)
qed

theorem extractVideoId_recognized_witness:
  "extractVideoId (js ''https://www.youtube.com/'' @ js ''watch?v='' @ js ''dQw4w9WgXcQ'' @ js ''&t=42s'')
     = Some (js ''dQw4w9WgXcQ'') \<and>
   list_all (\<lambda>c. \<not> is_line_terminator c) (js ''https://www.youtube.com/'') \<and>
   length (js ''dQw4w9WgXcQ'') = 11 \<and>
   list_all (\<lambda>c. \<not> is_delimiter c) (js ''dQw4w9WgXcQ'') \<and>
   is_delimiter (hd (js ''&t=42s'')) \<and>
   shape_free (tl (js ''watch?v='' @ js ''dQw4w9WgXcQ'' @ js ''&t=42s''))"
proof -
  have 2: "list_all (\<lambda>c. \<not> is_line_terminator c) (js ''https://www.youtube.com/'')"
    by (simp add: js_def is_line_terminator_def)
  have 3: "length (js ''dQw4w9WgXcQ'') = 11"
    by (simp add: js_def)
  have 4: "list_all (\<lambda>c. \<not> is_delimiter c) (js ''dQw4w9WgXcQ'')"
    by (simp add: js_def is_delimiter_def)
  have 5: "is_delimiter (hd (js ''&t=42s''))"
    by (simp add: js_def is_delimiter_def)
  have 6: "shape_free (tl (js ''watch?v='' @ js ''dQw4w9WgXcQ'' @ js ''&t=42s''))"
    by (simp add: url_eval)
  show ?thesis
    using extractVideoId_recognized [of "js ''watch?v=''" "js ''https://www.youtube.com/''"
        "js ''dQw4w9WgXcQ''" "js ''&t=42s''"] 2 3 4 5 6
    by simp
qed

text \<open>
  An embed link with an 11-character token, followed by a query that ends with \<open>v/\<close>: the
  last shape is that \<open>v/\<close>, the token after it is empty, and no identifier is returned.
\<close>

theorem extractVideoId_recognized_counterexample:
  "js ''https://www.youtube.com/embed/dQw4w9WgXcQ?origin=https://example.tv/'' =
     js ''https://www.youtube.com/'' @ js ''embed/'' @ js ''dQw4w9WgXcQ''
       @ js ''?origin=https://example.tv/'' \<and>
   length (js ''dQw4w9WgXcQ'') = 11 \<and>
   group2 (js ''dQw4w9WgXcQ'' @ js ''?origin=https://example.tv/'') = js ''dQw4w9WgXcQ'' \<and>
   extractVideoId (js ''https://www.youtube.com/embed/dQw4w9WgXcQ?origin=https://example.tv/'')
     = None"
  by (simp add: url_eval)

section \<open>Properties of the duration formatter\<close>

lemmas duration_eval = formatDuration_def duration_match_def optional_group_def or_empty_def
  trim_def lit_def js_def char_classes

lemma find_PT_None_iff: "find_PT d = None \<longleftrightarrow> \<not> sublist (js ''PT'') d"
proof (induction d)
  case Nil
  then show ?case by (simp add: js_def)
next
  case (Cons c cs)
  have p: "match_atoms (lit ''PT'') (c # cs) = None \<longleftrightarrow> \<not> prefix (js ''PT'') (c # cs)"
    by (cases cs) (auto simp: lit_def js_def)
  show ?case
    using Cons p by (auto simp: sublist_Cons_right split: option.splits)
qed

lemma duration_match_None_iff: "duration_match d = None \<longleftrightarrow> \<not> sublist (js ''PT'') d"
  using find_PT_None_iff [of d]
  by (auto simp: duration_match_def Let_def split: option.splits prod.splits)

text \<open>
  Claim C7, as the code has it. \<open>formatDuration("PT4M13S")\<close> is \<open>"4m 13s"\<close>,
  \<open>formatDuration("PT1H2M")\<close> is \<open>"1h 2m"\<close>, \<open>formatDuration(null)\<close> is \<open>"Unknown"\<close>, and
  every input string that is not empty and in which the pattern finds no match, which is
  a string without \<open>PT\<close>, is returned unchanged.
\<close>

theorem formatDuration_cases:
  "formatDuration (Some (js ''PT4M13S'')) = js ''4m 13s'' \<and>
   formatDuration (Some (js ''PT1H2M'')) = js ''1h 2m'' \<and>
   formatDuration None = js ''Unknown'' \<and>
   (d \<noteq> [] \<and> duration_match d = None \<longrightarrow> formatDuration (Some d) = d) \<and>
   (duration_match d = None \<longleftrightarrow> \<not> sublist (js ''PT'') d)"
proof (intro conjI impI)
  show "duration_match d = None \<longleftrightarrow> \<not> sublist (js ''PT'') d"
    by (rule duration_match_None_iff)
  show "formatDuration (Some (js ''PT4M13S'')) = js ''4m 13s''"
    by (simp add: duration_eval)
  show "formatDuration (Some (js ''PT1H2M'')) = js ''1h 2m''"
    by (simp add: duration_eval)
  show "formatDuration None = js ''Unknown''"
    by (simp add: formatDuration_def)
  assume "d \<noteq> [] \<and> duration_match d = None"
  then show "formatDuration (Some d) = d"
    by (simp add: formatDuration_def)
qed

theorem formatDuration_cases_witness:
  "js ''1:30'' \<noteq> [] \<and> duration_match (js ''1:30'') = None \<and>
   formatDuration (Some (js ''1:30'')) = js ''1:30''"
proof -
  have 1: "js ''1:30'' \<noteq> []" by (simp add: js_def)
  have 2: "duration_match (js ''1:30'') = None" by (simp add: duration_eval)
  show ?thesis
    using formatDuration_cases [of "js ''1:30''"] 1 2 by simp
qed

text \<open>
  The empty string is a string in which the pattern finds no match, and the formatter
  answers \<open>"Unknown"\<close> for it: \<open>!duration\<close> holds of the empty string too.
\<close>

theorem formatDuration_counterexample:
  "duration_match [] = None \<and> formatDuration (Some []) = js ''Unknown'' \<and>
   formatDuration (Some []) \<noteq> []"
  by (simp add: duration_eval)

section \<open>Properties of the formatting cleanup\<close>

lemma js_includes_iff_sublist: "js_includes s needle \<longleftrightarrow> sublist needle s"
  by (induction s) (auto simp: sublist_Cons_right)

lemma has_digit_period_Cons: "has_digit_period cs \<Longrightarrow> has_digit_period (c # cs)"
  by (cases cs) auto

lemma has_digit_period_append_left: "has_digit_period t \<Longrightarrow> has_digit_period (ps @ t)"
  by (induction ps) (auto intro: has_digit_period_Cons)

lemma has_digit_period_append_right: "has_digit_period t \<Longrightarrow> has_digit_period (t @ ss)"
  by (induction t rule: has_digit_period.induct) auto

lemma has_digit_period_sublist:
  "sublist t s \<Longrightarrow> has_digit_period t \<Longrightarrow> has_digit_period s"
  by (auto simp: sublist_def intro: has_digit_period_append_left has_digit_period_append_right)

lemma digits_then_period:
  "ds \<noteq> [] \<Longrightarrow> list_all is_digit ds \<Longrightarrow> has_digit_period (ds @ 46 # r)"
proof (induction ds)
  case Nil
  then show ?case by simp
next
  case (Cons d ds)
  then show ?case by (cases ds) auto
qed

lemma numbered_match_has_digit_period:
  assumes "numbered_match s = Some (ds, r)"
  shows "has_digit_period s"
proof -
  from assms obtain r' where d: "dropWhile is_digit s = 46 # r'"
    and n: "takeWhile is_digit s \<noteq> []"
    by (auto simp: numbered_match_def Let_def split: list.splits if_splits)
  have "s = takeWhile is_digit s @ 46 # r'"
    using d takeWhile_dropWhile_id [of is_digit s] by simp
  moreover have "list_all is_digit (takeWhile is_digit s)"
    by (simp add: list_all_iff) (meson set_takeWhileD)
  ultimately show ?thesis
    using digits_then_period [OF n, of r'] by simp
qed

lemma format_numbered_unchanged: "\<not> has_digit_period s \<Longrightarrow> format_numbered s = s"
proof (induction s)
  case Nil
  then show ?case by simp
next
  case (Cons c cs)
  have "numbered_match (c # cs) = None"
    using Cons.prems numbered_match_has_digit_period [of "c # cs"]
    by (cases "numbered_match (c # cs)") auto
  moreover have "\<not> has_digit_period cs"
    using Cons.prems has_digit_period_Cons by blast
  ultimately show ?case using Cons.IH by simp
qed

lemma numbered_match_inside:
  assumes "pre \<noteq> []" and "\<not> is_digit (last pre)" and "\<not> has_digit_period pre"
  shows "numbered_match (pre @ s) = None"
proof (rule ccontr)
  assume "numbered_match (pre @ s) \<noteq> None"
  then obtain r' where d: "dropWhile is_digit (pre @ s) = 46 # r'"
    and n: "takeWhile is_digit (pre @ s) \<noteq> []"
    by (auto simp: numbered_match_def Let_def split: list.splits if_splits)
  have l: "last pre \<in> set pre" using assms(1) by simp
  have t: "takeWhile is_digit (pre @ s) = takeWhile is_digit pre"
    using l assms(2) by (rule takeWhile_append1)
  have "dropWhile is_digit (pre @ s) = dropWhile is_digit pre @ s"
    using l assms(2) by (rule dropWhile_append1)
  moreover have "dropWhile is_digit pre \<noteq> []"
    using l assms(2) by (auto simp: dropWhile_eq_Nil_conv)
  ultimately obtain r'' where "dropWhile is_digit pre = 46 # r''"
    using d by (cases "dropWhile is_digit pre") auto
  then have "pre = takeWhile is_digit pre @ 46 # r''"
    using takeWhile_dropWhile_id [of is_digit pre] by simp
  moreover have "list_all is_digit (takeWhile is_digit pre)"
    by (simp add: list_all_iff) (meson set_takeWhileD)
  ultimately have "has_digit_period pre"
    using digits_then_period [of "takeWhile is_digit pre" r''] n t by simp
  then show False using assms(3) by simp
qed

lemma format_numbered_skip:
  assumes "\<not> has_digit_period pre" and "pre = [] \<or> \<not> is_digit (last pre)"
  shows "format_numbered (pre @ s) = pre @ format_numbered s"
  using assms
proof (induction pre)
  case Nil
  then show ?case by simp
next
  case (Cons p pre)
  have m: "numbered_match ((p # pre) @ s) = None"
    using Cons.prems by (intro numbered_match_inside) auto
  have "\<not> has_digit_period pre"
    using Cons.prems(1) has_digit_period_Cons by blast
  moreover have "pre = [] \<or> \<not> is_digit (last pre)"
    using Cons.prems(2) by (auto split: if_splits)
  ultimately have "format_numbered (pre @ s) = pre @ format_numbered s"
    using Cons.IH by simp
  then show ?case using m by simp
qed

lemma format_numbered_match:
  assumes "ds \<noteq> []" and "list_all is_digit ds" and "list_all is_space ws"
    and "rest = [] \<or> \<not> is_space (hd rest)"
  shows "format_numbered (ds @ [46] @ ws @ rest) =
         js ''\<newline>\<newline>**'' @ ds @ js ''.** '' @ format_numbered rest"
proof -
  have nd: "\<not> is_digit 46" by (simp add: is_digit_def)
  have t: "takeWhile is_digit (ds @ 46 # ws @ rest) = ds"
    using assms(2) nd by (simp add: list_all_iff takeWhile_append2)
  have d: "dropWhile is_digit (ds @ 46 # ws @ rest) = 46 # ws @ rest"
    using assms(2) nd by (simp add: list_all_iff dropWhile_append2)
  have w: "dropWhile is_space (ws @ rest) = rest"
    using assms(3,4) by (cases rest) (auto simp: list_all_iff dropWhile_append2)
  have m: "numbered_match (ds @ 46 # ws @ rest) = Some (ds, rest)"
    using assms(1) by (simp add: numbered_match_def t d w)
  obtain c cs where c: "ds @ 46 # ws @ rest = c # cs"
    using assms(1) by (cases ds) auto
  have "format_numbered (c # cs) =
      js ''\<newline>\<newline>**'' @ ds @ js ''.** '' @ format_numbered rest"
    using m unfolding c by simp
  then show ?thesis using c by simp
qed

text \<open>
  Claim C4, as the code has it. The numbered-list rule has no line anchor: it rewrites a
  digit sequence followed by a period wherever it stands, at the beginning of a line or
  not, into a blank line, the bold marker and one space, and drops the white space that
  followed the period. A text in which no digit is followed at once by a period is left
  unchanged by the rule, and so is the text in front of the first such place.
\<close>

theorem format_numbered_anywhere:
  "(\<not> has_digit_period s \<longrightarrow> format_numbered s = s) \<and>
   (\<not> has_digit_period pre \<and> (pre = [] \<or> \<not> is_digit (last pre)) \<and>
    ds \<noteq> [] \<and> list_all is_digit ds \<and> list_all is_space ws \<and>
    (rest = [] \<or> \<not> is_space (hd rest)) \<longrightarrow>
      format_numbered (pre @ ds @ [46] @ ws @ rest) =
        pre @ js ''\<newline>\<newline>**'' @ ds @ js ''.** '' @ format_numbered rest)"
  using format_numbered_unchanged [of s] format_numbered_skip [of pre "ds @ [46] @ ws @ rest"]
    format_numbered_match [of ds ws rest]
  by simp


theorem format_numbered_anywhere_witness:
  "\<not> has_digit_period (js ''see chapter 3'') \<and>
   format_numbered (js ''see chapter 3'') = js ''see chapter 3'' \<and>
   \<not> has_digit_period (js ''Steps: '') \<and> \<not> is_digit (last (js ''Steps: '')) \<and>
   list_all is_digit (js ''12'') \<and> list_all is_space (js ''  '') \<and> \<not> is_space (hd (js ''go'')) \<and>
   format_numbered (js ''Steps: '' @ js ''12'' @ [46] @ js ''  '' @ js ''go'') =
     js ''Steps: '' @ js ''\<newline>\<newline>**'' @ js ''12'' @ js ''.** '' @ js ''go''"
proof -
  have 1: "\<not> has_digit_period (js ''see chapter 3'')"
    by (simp add: js_def is_digit_def)
  have 2: "\<not> has_digit_period (js ''Steps: '')" "\<not> is_digit (last (js ''Steps: ''))"
    "js ''12'' \<noteq> []" "list_all is_digit (js ''12'')" "list_all is_space (js ''  '')"
    "\<not> is_space (hd (js ''go''))"
    by (simp_all add: js_def char_classes)
  have 3: "format_numbered (js ''go'') = js ''go''"
    by (simp add: js_def numbered_match_def char_classes)
  show ?thesis
    using format_numbered_anywhere [of "js ''see chapter 3''" "js ''Steps: ''" "js ''12''"
        "js ''  ''" "js ''go''"] 1 2 3
    by simp
qed

text \<open>
  A digit and a period in the middle of a line: the rule rewrites them.
\<close>

theorem format_numbered_counterexample:
  "format_numbered (js ''upgrade to v2.0 today'') =
     js ''upgrade to v\<newline>\<newline>**2.** 0 today'' \<and>
   format_numbered (js ''upgrade to v2.0 today'') \<noteq> js ''upgrade to v2.0 today''"
  by (simp add: js_def numbered_match_def char_classes)

lemma fix_quadruple_unchanged: "\<not> js_includes s (js ''****'') \<Longrightarrow> fix_quadruple s = s"
  by (induction s rule: fix_quadruple.induct) (auto simp: js_def)

lemma takeWhile_three:
  "3 \<le> length (takeWhile P s) \<Longrightarrow> \<exists>a b c r. s = a # b # c # r \<and> P a \<and> P b \<and> P c"
proof -
  assume l: "3 \<le> length (takeWhile P s)"
  then obtain a s1 where 1: "s = a # s1" "P a"
    by (cases s) (auto split: if_splits)
  with l obtain b s2 where 2: "s1 = b # s2" "P b"
    by (cases s1) (auto split: if_splits)
  with l 1 obtain c s3 where 3: "s2 = c # s3" "P c"
    by (cases s2) (auto split: if_splits)
  from 1 2 3 show ?thesis by blast
qed

lemma collapse_newlines_unchanged:
  "\<not> js_includes s (js ''\<newline>\<newline>\<newline>'') \<Longrightarrow> collapse_newlines s = s"
proof (induction s)
  case Nil
  then show ?case by simp
next
  case (Cons c cs)
  have "\<not> 3 \<le> length (takeWhile (\<lambda>x. x = 10) (c # cs))"
  proof
    assume "3 \<le> length (takeWhile (\<lambda>x. x = 10) (c # cs))"
    then obtain r where "c # cs = 10 # 10 # 10 # r"
      using takeWhile_three [of "\<lambda>x. x = 10" "c # cs"] by auto
    then show False using Cons.prems by (simp add: js_def)
  qed
  then show ?case using Cons by simp
qed

lemma bold_headers_unchanged: "58 \<notin> set s \<Longrightarrow> bold_headers s = s"
proof (induction s rule: bold_headers.induct)
  case (1 s)
  let ?line = "takeWhile (\<lambda>c. \<not> is_line_terminator c) s"
  let ?rest = "dropWhile (\<lambda>c. \<not> is_line_terminator c) s"
  have l: "\<not> (2 \<le> length ?line \<and> last ?line = 58)"
  proof
    assume a: "2 \<le> length ?line \<and> last ?line = 58"
    then have "?line \<noteq> []" by auto
    then have "last ?line \<in> set ?line" by simp
    then have "58 \<in> set s" using a by (auto dest: set_takeWhileD)
    then show False using "1.prems" by simp
  qed
  have r: "(case ?rest of [] \<Rightarrow> [] | t # r \<Rightarrow> t # bold_headers r) = ?rest"
  proof (cases ?rest)
    case Nil
    show ?thesis unfolding Nil by simp
  next
    case (Cons t r)
    have "set r \<subseteq> set s"
      using Cons set_dropWhileD [of _ "\<lambda>c. \<not> is_line_terminator c" s] by auto
    then have "58 \<notin> set r" using "1.prems" by auto
    then have "bold_headers r = r" using "1.IH" [OF refl Cons] by simp
    then show ?thesis using Cons by simp
  qed
  have "bold_headers s = ?line @ ?rest"
    by (subst bold_headers.simps) (simp only: Let_def l r if_False)
  then show ?case by simp
qed

lemma sublist_trim: "sublist (trim s) s"
proof -
  have "sublist (trim s) (dropWhile is_space s)"
    unfolding trim_def by (simp add: sublist_rev_left)
  then show ?thesis
    using sublist_dropWhile [of is_space s] sublist_order.order_trans by blast
qed

lemma prefix_hd: "prefix z y \<Longrightarrow> z \<noteq> [] \<Longrightarrow> hd z = hd y"
  by (auto simp: prefix_def)

lemma dropWhile_keeps: "z \<noteq> [] \<Longrightarrow> \<not> P (hd z) \<Longrightarrow> dropWhile P z = z"
  by (cases z) auto

lemma dropWhile_rev_dropWhile:
  "dropWhile P (rev (dropWhile P (rev (dropWhile P s)))) = rev (dropWhile P (rev (dropWhile P s)))"
proof -
  let ?y = "dropWhile P s"
  let ?z = "rev (dropWhile P (rev ?y))"
  show "dropWhile P ?z = ?z"
  proof (cases "?z = []")
    case True
    show ?thesis unfolding True by simp
  next
    case False
    have y: "?y \<noteq> []"
    proof
      assume e: "?y = []"
      have "?z = []" unfolding e by simp
      with False show False ..
    qed
    then have h: "\<not> P (hd ?y)" by (rule hd_dropWhile)
    have "prefix ?z ?y"
      by (metis rev_rev_ident suffix_dropWhile suffix_to_prefix)
    then have "hd ?z = hd ?y" using False by (rule prefix_hd)
    with h have "\<not> P (hd ?z)" by simp
    with False show ?thesis by (rule dropWhile_keeps)
  qed
qed

lemma trim_trim: "trim (trim s) = trim s"
proof -
  let ?w = "dropWhile is_space (rev (dropWhile is_space s))"
  have 1: "dropWhile is_space (rev ?w) = rev ?w"
    using dropWhile_rev_dropWhile [of is_space s] .
  have 2: "dropWhile is_space ?w = ?w"
    by (simp add: dropWhile_idem)
  show ?thesis
    by (simp add: trim_def 1 2)
qed

lemma cleanFormatting_is_trim:
  assumes "\<not> js_includes x (js ''****'')" and "\<not> js_includes x (js ''\<newline>\<newline>\<newline>'')"
    and "\<not> has_digit_period x" and "\<not> js_includes x (js '':'')"
  shows "cleanFormatting x = trim x"
proof -
  have "58 \<notin> set x"
    using assms(4) by (simp add: js_includes_iff_sublist js_def sublist_def in_set_conv_decomp)
  then show ?thesis
    using assms(1-3)
    by (simp add: cleanFormatting_def fix_quadruple_unchanged format_numbered_unchanged
        collapse_newlines_unchanged bold_headers_unchanged)
qed

text \<open>
  Claim C3, as the code has it. On a text with no run of four asterisks, no run of three
  newlines, no digit followed at once by a period and no colon, the cleanup only trims,
  and a second pass changes nothing.
\<close>

theorem cleanFormatting_second_pass:
  assumes "\<not> js_includes x (js ''****'')" and "\<not> js_includes x (js ''\<newline>\<newline>\<newline>'')"
    and "\<not> has_digit_period x" and "\<not> js_includes x (js '':'')"
  shows "cleanFormatting x = trim x \<and> cleanFormatting (cleanFormatting x) = cleanFormatting x"
proof -
  have t: "sublist (trim x) x" by (rule sublist_trim)
  have i: "\<And>n. \<not> js_includes x n \<Longrightarrow> \<not> js_includes (trim x) n"
    using t sublist_order.order_trans by (auto simp: js_includes_iff_sublist)
  have d: "\<not> has_digit_period (trim x)"
    using assms(3) has_digit_period_sublist [OF t] by blast
  have 1: "cleanFormatting x = trim x"
    using assms by (rule cleanFormatting_is_trim)
  have "cleanFormatting (trim x) = trim (trim x)"
    using assms(1,2,4) d by (intro cleanFormatting_is_trim i)
  then show ?thesis by (simp add: 1 trim_trim)
qed

theorem cleanFormatting_second_pass_witness:
  "\<not> js_includes (js ''  **Overview**\<newline>\<newline>It is 3 pm \<newline>'') (js ''****'') \<and>
   \<not> js_includes (js ''  **Overview**\<newline>\<newline>It is 3 pm \<newline>'') (js ''\<newline>\<newline>\<newline>'') \<and>
   \<not> has_digit_period (js ''  **Overview**\<newline>\<newline>It is 3 pm \<newline>'') \<and>
   \<not> js_includes (js ''  **Overview**\<newline>\<newline>It is 3 pm \<newline>'') (js '':'') \<and>
   cleanFormatting (js ''  **Overview**\<newline>\<newline>It is 3 pm \<newline>'') =
     js ''**Overview**\<newline>\<newline>It is 3 pm'' \<and>
   cleanFormatting (cleanFormatting (js ''  **Overview**\<newline>\<newline>It is 3 pm \<newline>'')) =
     cleanFormatting (js ''  **Overview**\<newline>\<newline>It is 3 pm \<newline>'')"
proof -
  let ?x = "js ''  **Overview**\<newline>\<newline>It is 3 pm \<newline>''"
  have 1: "\<not> js_includes ?x (js ''****'')" "\<not> js_includes ?x (js ''\<newline>\<newline>\<newline>'')"
    "\<not> has_digit_period ?x" "\<not> js_includes ?x (js '':'')"
    by (simp_all add: js_def is_digit_def)
  have 2: "trim ?x = js ''**Overview**\<newline>\<newline>It is 3 pm''"
    by (simp add: trim_def js_def char_classes)
  note c = cleanFormatting_second_pass [OF 1]
  have a: "cleanFormatting ?x = js ''**Overview**\<newline>\<newline>It is 3 pm''"
    using c 2 by simp
  have b: "cleanFormatting (cleanFormatting ?x) = cleanFormatting ?x"
    using c by blast
  show ?thesis using 1 a b by blast
qed

text \<open>
  The text \<open>1. a\<close> has no run of four asterisks and no run of three newlines. The first
  pass gives \<open>**1.** a\<close>, in which the second pass finds \<open>1.\<close> again. A colon does the
  same once the trim has brought it to the end of its line
  (\<open>cleanFormatting_colon_example\<close>).
\<close>

theorem cleanFormatting_counterexample:
  "\<not> js_includes (js ''1. a'') (js ''****'') \<and>
   \<not> js_includes (js ''1. a'') (js ''\<newline>\<newline>\<newline>'') \<and>
   cleanFormatting (js ''1. a'') = js ''**1.** a'' \<and>
   cleanFormatting (cleanFormatting (js ''1. a'')) = js ''**\<newline>\<newline>**1.** ** a'' \<and>
   cleanFormatting (cleanFormatting (js ''1. a'')) \<noteq> cleanFormatting (js ''1. a'')"
  by (simp add: cleanup_eval)

lemma cleanFormatting_colon_example:
  "cleanFormatting (js ''Summary: '') = js ''Summary:'' \<and>
   cleanFormatting (cleanFormatting (js ''Summary: '')) = js ''**Summary:**''"
  by (simp add: cleanup_eval)

section \<open>Properties of the prompt composer\<close>

lemma substring_from_0: "substring s 0 n = take n s"
  by (simp add: substring_def Let_def min_def)

text \<open>
  Claim C9. For every metadata record and transcript the composed prompt holds, after
  the video details and in this order: under the description heading the first 1000
  characters of the description, followed by \<open>...\<close> exactly when the description is
  longer than 1000 characters, or "No description available" when the description is
  empty or absent; the tags block exactly when there is at least one tag, made of the
  first 10 tags at most, joined by a comma and a space; the first 6000 characters of the
  transcript under its heading, followed by the continues marker exactly when the
  transcript is longer than 6000 characters, or the fixed no-transcript statement when
  the transcript is absent (or empty).
\<close>

theorem prompt_contents:
  "\<exists>instructions.
     build_prompt e md transcript b =
       video_details e md
       @ js ''\<newline>\<newline>**'' @ page @ js '' DESCRIPTION:**\<newline>''
       @ (case description md of
            None \<Rightarrow> js ''No description available''
          | Some d \<Rightarrow>
              if d = [] then js ''No description available''
              else take 1000 d @ (if 1000 < length d then js ''...'' else []))
       @ js ''\<newline>\<newline>''
       @ (case tags md of
            None \<Rightarrow> []
          | Some ts \<Rightarrow>
              if ts = [] then []
              else js ''**'' @ label @ js '' TAGS:** '' @ join (js '', '') (take 10 ts))
       @ js ''\<newline>\<newline>''
       @ (case transcript of
            None \<Rightarrow> no_transcript_statement
          | Some t \<Rightarrow>
              if t = [] then no_transcript_statement
              else js ''**'' @ memo @ js '' VIDEO TRANSCRIPT:**\<newline>'' @ take 6000 t
                   @ (if 6000 < length t then js ''...(transcript continues)'' else []))
       @ js ''\<newline>\<newline>'' @ analysis_request @ instructions"
proof -
  have d: "description_section md =
      (case description md of
            None \<Rightarrow> js ''No description available''
          | Some d \<Rightarrow>
              if d = [] then js ''No description available''
              else take 1000 d @ (if 1000 < length d then js ''...'' else []))"
    by (simp add: description_section_def substring_from_0 split: option.splits)
  have t: "tags_section md =
      (case tags md of
            None \<Rightarrow> []
          | Some ts \<Rightarrow>
              if ts = [] then []
              else js ''**'' @ label @ js '' TAGS:** '' @ join (js '', '') (take 10 ts))"
    by (simp add: tags_section_def split: option.splits)
  have r: "transcript_section transcript =
      (case transcript of
            None \<Rightarrow> no_transcript_statement
          | Some t \<Rightarrow>
              if t = [] then no_transcript_statement
              else js ''**'' @ memo @ js '' VIDEO TRANSCRIPT:**\<newline>'' @ take 6000 t
                   @ (if 6000 < length t then js ''...(transcript continues)'' else []))"
    by (simp add: transcript_section_def substring_from_0 split: option.splits)
  show ?thesis
    unfolding build_prompt_def prompt_template_def d t r by (simp only: append_assoc) blast
qed

section \<open>Properties of the request handler\<close>

lemma error_response_status: "statusCode (error_response c m) = c"
  by (simp add: error_response_def)

lemma analyze_200:
  "analyze e b link vid = Inr r \<Longrightarrow>
   \<exists>g. generateContent e (modelName b)
          (build_prompt e (fetch_metadata e vid) (fetch_transcript e vid) b)
          (generation_config b) = Inr g \<and>
       r = \<lparr>statusCode = 200, headers = cors_headers,
            body = Some (analysis_result e b link vid (fetch_metadata e vid)
                     (fetch_transcript e vid)
                     (if js_includes (modelName b) (js ''2.0'') then cleanFormatting g else g))\<rparr>"
  by (auto simp: analyze_def Let_def split: sum.splits)

lemma summarize_200:
  assumes "summarize e ev = Inr r" and "statusCode r = 200"
  shows "\<exists>b link vid.
           parsed_body ev = Inr b \<and> youtube_link b = Some link \<and> link \<noteq> [] \<and>
           extractVideoId link = Some vid \<and> analyze e b link vid = Inr r"
proof -
  have ne: "\<And>m. r \<noteq> error_response 400 m"
    using assms(2) error_response_status [of 400] by auto
  show ?thesis
    using assms(1) ne
    by (auto simp: summarize_def split: sum.splits option.splits if_splits)
qed

lemma handler_post_200:
  assumes "httpMethod ev = js ''POST''" and "statusCode (handler e ev) = 200"
  shows "\<exists>b link vid g.
           parsed_body ev = Inr b \<and> youtube_link b = Some link \<and> link \<noteq> [] \<and>
           extractVideoId link = Some vid \<and>
           generateContent e (modelName b)
             (build_prompt e (fetch_metadata e vid) (fetch_transcript e vid) b)
             (generation_config b) = Inr g \<and>
           handler e ev =
             \<lparr>statusCode = 200, headers = cors_headers,
              body = Some (analysis_result e b link vid (fetch_metadata e vid)
                       (fetch_transcript e vid)
                       (if js_includes (modelName b) (js ''2.0'') then cleanFormatting g else g))\<rparr>"
proof -
  have m: "httpMethod ev \<noteq> js ''OPTIONS''" "httpMethod ev \<noteq> js ''GET''"
    using assms(1) by (simp_all add: js_def)
  obtain r where s: "summarize e ev = Inr r" and h: "handler e ev = r"
    using assms m by (auto simp: handler_def split: sum.splits error.splits)
  from summarize_200 [OF s] assms(2) h obtain b link vid where
    p: "parsed_body ev = Inr b" "youtube_link b = Some link" "link \<noteq> []"
       "extractVideoId link = Some vid" and a: "analyze e b link vid = Inr r"
    by auto
  from analyze_200 [OF a] p h show ?thesis by blast
qed

lemma handler_valid_post:
  assumes "httpMethod ev = js ''POST''" "parsed_body ev = Inr b" "youtube_link b = Some link"
    "extractVideoId link = Some vid"
  shows "handler e ev =
    (case generateContent e (modelName b)
             (build_prompt e (fetch_metadata e vid) (fetch_transcript e vid) b)
             (generation_config b) of
       Inl (Error msg) \<Rightarrow>
         \<lparr>statusCode = 500, headers = cors_headers,
          body = Some (JObj [(''error'', JStr (js ''Failed to analyze video'')),
                             (''details'', JStr msg)])\<rparr>
     | Inr g \<Rightarrow>
         \<lparr>statusCode = 200, headers = cors_headers,
          body = Some (analysis_result e b link vid (fetch_metadata e vid)
                   (fetch_transcript e vid)
                   (if js_includes (modelName b) (js ''2.0'') then cleanFormatting g else g))\<rparr>)"
proof -
  have m: "httpMethod ev \<noteq> js ''OPTIONS''" "httpMethod ev \<noteq> js ''GET''"
    using assms(1) by (simp_all add: js_def)
  have l: "link \<noteq> []" using assms(4) extractVideoId_Nil by auto
  have v: "vid \<noteq> []" using extractVideoId_length [OF assms(4)] by auto
  have "summarize e ev = analyze e b link vid"
    using assms l v by (simp add: summarize_def)
  then show ?thesis
    using assms(1) m
    by (simp add: handler_def analyze_def Let_def split: sum.splits error.splits)
qed

lemmas read_response = response_field_def quality_def metadata_excerpt_def field_def
  analysis_result_def


lemma placeholder_has_metadata:
  \<comment> \<open>under the same hypotheses \<open>has_metadata\<close> is \<open>!!metadata.title\<close> of the placeholder title\<close>
  assumes "httpMethod ev = js ''POST''" and "parsed_body ev = Inr b"
    and "youtube_link b = Some link" and "extractVideoId link = Some vid"
    and "getVideoMetadata e vid = Inl err"
    and "generateContent e (modelName b)
           (build_prompt e placeholder_metadata (fetch_transcript e vid) b)
           (generation_config b) = Inr g"
  shows "quality ''has_metadata'' (handler e ev) = Some (JBool True)"
proof -
  have f: "fetch_metadata e vid = placeholder_metadata"
    using assms(5) by (simp add: fetch_metadata_def)
  have h: "handler e ev =
         \<lparr>statusCode = 200, headers = cors_headers,
          body = Some (analysis_result e b link vid placeholder_metadata
                   (fetch_transcript e vid)
                   (if js_includes (modelName b) (js ''2.0'') then cleanFormatting g else g))\<rparr>"
    using handler_valid_post [OF assms(1-4), of e] assms(6) f by simp
  show ?thesis
    by (simp add: h read_response placeholder_metadata_def truthy_def js_def)
qed

lemma example_event_facts:
  "httpMethod example_event = js ''POST''"
  "parsed_body example_event = Inr example_body"
  "youtube_link example_body = Some (js ''https://youtu.be/dQw4w9WgXcQ'')"
  by (simp_all add: example_event_def example_body_def)

lemmas example_handler =
  handler_valid_post [OF example_event_facts example_video_id]

lemma example_generates:
  "generateContent example_env = (\<lambda>name prompt config. Inr (js ''A summary''))"
  "generateContent env_no_fragments = (\<lambda>name prompt config. Inr (js ''A summary''))"
  "generateContent env_captions = (\<lambda>name prompt config. Inr (js ''A summary''))"
  "generateContent env_model_fails =
     (\<lambda>name prompt config. Inl (Error (js ''quota exceeded'')))"
  by (simp_all add: example_env_def env_no_fragments_def env_captions_def env_model_fails_def)


lemma example_transcript_fails:
  "fetchTranscript example_env v = Inl (Error (js ''Transcript is disabled''))"
  by (simp add: example_env_def)



lemma getVideoTranscript_never_throws: "\<exists>t. getVideoTranscript e v = Inr t"
  by (simp add: getVideoTranscript_def split: sum.splits)

lemma quality_of_result:
  "quality ''has_transcript'' \<lparr>statusCode = c, headers = h,
      body = Some (analysis_result e b link vid md tr s)\<rparr> = Some (JBool (truthy tr))"
  "quality ''transcript_length'' \<lparr>statusCode = c, headers = h,
      body = Some (analysis_result e b link vid md tr s)\<rparr> =
     Some (JNum (if truthy tr then length (or_empty tr) else 0))"
  "quality ''content_richness'' \<lparr>statusCode = c, headers = h,
      body = Some (analysis_result e b link vid md tr s)\<rparr> =
     Some (JStr (if truthy tr then js ''High'' else js ''Medium''))"
  by (simp_all add: read_response)

text \<open>
  Claim C8, as the code has it. The transcript fetcher answers absence when the
  transcript service throws, and so does the handler's own fallback. In the 200 answer
  to a POST, an absent transcript gives \<open>has_transcript\<close> false, \<open>transcript_length\<close> 0
  and \<open>content_richness\<close> "Medium"; a transcript that is present and not empty gives
  \<open>has_transcript\<close> true, its length and "High".
\<close>

theorem transcript_quality:
  "(fetchTranscript e v = Inl err \<longrightarrow>
      getVideoTranscript e v = Inr None \<and> fetch_transcript e v = None) \<and>
   (httpMethod ev = js ''POST'' \<and> parsed_body ev = Inr b \<and> youtube_link b = Some link \<and>
    extractVideoId link = Some vid \<and> statusCode (handler e ev) = 200 \<longrightarrow>
      (fetch_transcript e vid = None \<longrightarrow>
         quality ''has_transcript'' (handler e ev) = Some (JBool False) \<and>
         quality ''transcript_length'' (handler e ev) = Some (JNum 0) \<and>
         quality ''content_richness'' (handler e ev) = Some (JStr (js ''Medium''))) \<and>
      (\<forall>t. fetch_transcript e vid = Some t \<and> t \<noteq> [] \<longrightarrow>
         quality ''has_transcript'' (handler e ev) = Some (JBool True) \<and>
         quality ''transcript_length'' (handler e ev) = Some (JNum (length t)) \<and>
         quality ''content_richness'' (handler e ev) = Some (JStr (js ''High''))))"
proof (intro conjI impI allI)
  assume "fetchTranscript e v = Inl err"
  then show "getVideoTranscript e v = Inr None"
    by (simp add: getVideoTranscript_def)
  then show "fetch_transcript e v = None"
    by (simp add: fetch_transcript_def)
next
  assume a: "httpMethod ev = js ''POST'' \<and> parsed_body ev = Inr b \<and> youtube_link b = Some link \<and>
    extractVideoId link = Some vid \<and> statusCode (handler e ev) = 200"
  then obtain g where h: "handler e ev =
         \<lparr>statusCode = 200, headers = cors_headers,
          body = Some (analysis_result e b link vid (fetch_metadata e vid)
                   (fetch_transcript e vid)
                   (if js_includes (modelName b) (js ''2.0'') then cleanFormatting g else g))\<rparr>"
    using handler_post_200 [of ev e] by auto
  {
    assume n: "fetch_transcript e vid = None"
    show "quality ''has_transcript'' (handler e ev) = Some (JBool False)"
      by (simp only: h quality_of_result) (simp add: n truthy_def)
    show "quality ''transcript_length'' (handler e ev) = Some (JNum 0)"
      by (simp only: h quality_of_result) (simp add: n truthy_def)
    show "quality ''content_richness'' (handler e ev) = Some (JStr (js ''Medium''))"
      by (simp only: h quality_of_result) (simp add: n truthy_def)
  }
  {
    fix t assume s: "fetch_transcript e vid = Some t \<and> t \<noteq> []"
    show "quality ''has_transcript'' (handler e ev) = Some (JBool True)"
      by (simp only: h quality_of_result) (simp add: s truthy_def)
    show "quality ''transcript_length'' (handler e ev) = Some (JNum (length t))"
      by (simp only: h quality_of_result) (simp add: s truthy_def or_empty_def)
    show "quality ''content_richness'' (handler e ev) = Some (JStr (js ''High''))"
      by (simp only: h quality_of_result) (simp add: s truthy_def)
  }
qed

theorem transcript_quality_witness:
  "fetchTranscript example_env (js ''dQw4w9WgXcQ'') = Inl (Error (js ''Transcript is disabled'')) \<and>
   getVideoTranscript example_env (js ''dQw4w9WgXcQ'') = Inr None \<and>
   statusCode (handler example_env example_event) = 200 \<and>
   quality ''has_transcript'' (handler example_env example_event) = Some (JBool False) \<and>
   quality ''transcript_length'' (handler example_env example_event) = Some (JNum 0) \<and>
   quality ''content_richness'' (handler example_env example_event) = Some (JStr (js ''Medium'')) \<and>
   fetch_transcript env_captions (js ''dQw4w9WgXcQ'') = Some (js ''never gonna give'') \<and>
   statusCode (handler env_captions example_event) = 200 \<and>
   quality ''has_transcript'' (handler env_captions example_event) = Some (JBool True) \<and>
   quality ''transcript_length'' (handler env_captions example_event) = Some (JNum 16) \<and>
   quality ''content_richness'' (handler env_captions example_event) = Some (JStr (js ''High''))"
proof -
  have s: "statusCode (handler example_env example_event) = 200"
    by (simp add: example_handler example_generates)
  have s': "statusCode (handler env_captions example_event) = 200"
    by (simp add: example_handler example_generates)
  have f: "fetch_transcript env_captions (js ''dQw4w9WgXcQ'') = Some (js ''never gonna give'')"
    by (simp add: fetch_transcript_def getVideoTranscript_def env_captions_def js_def)
  have n: "js ''never gonna give'' \<noteq> []" "length (js ''never gonna give'') = 16"
    by (simp_all add: js_def)
  have absent:
    "getVideoTranscript example_env (js ''dQw4w9WgXcQ'') = Inr None \<and>
     quality ''has_transcript'' (handler example_env example_event) = Some (JBool False) \<and>
     quality ''transcript_length'' (handler example_env example_event) = Some (JNum 0) \<and>
     quality ''content_richness'' (handler example_env example_event) = Some (JStr (js ''Medium''))"
    using transcript_quality [of example_env "js ''dQw4w9WgXcQ''"
        "Error (js ''Transcript is disabled'')" example_event example_body
        "js ''https://youtu.be/dQw4w9WgXcQ''" "js ''dQw4w9WgXcQ''"]
      example_transcript_fails example_event_facts example_video_id s
    by simp
  have present:
    "quality ''has_transcript'' (handler env_captions example_event) = Some (JBool True) \<and>
     quality ''transcript_length'' (handler env_captions example_event) = Some (JNum 16) \<and>
     quality ''content_richness'' (handler env_captions example_event) = Some (JStr (js ''High''))"
    using transcript_quality [of env_captions "[]" "Error []" example_event example_body
        "js ''https://youtu.be/dQw4w9WgXcQ''" "js ''dQw4w9WgXcQ''"]
      example_event_facts example_video_id s' f n
    by simp
  show ?thesis
    using absent present f s s' example_transcript_fails by simp
qed

text \<open>
  A transcript service that answers no fragment at all: the fetcher returns the empty
  string, a transcript that is present, and the 200 answer says "Medium", not "High".
\<close>

theorem transcript_quality_counterexample:
  "fetchTranscript env_no_fragments (js ''dQw4w9WgXcQ'') = Inr [] \<and>
   getVideoTranscript env_no_fragments (js ''dQw4w9WgXcQ'') = Inr (Some []) \<and>
   statusCode (handler env_no_fragments example_event) = 200 \<and>
   quality ''content_richness'' (handler env_no_fragments example_event)
     = Some (JStr (js ''Medium'')) \<and>
   quality ''content_richness'' (handler env_no_fragments example_event)
     \<noteq> Some (JStr (js ''High''))"
proof -
  have t: "fetchTranscript env_no_fragments (js ''dQw4w9WgXcQ'') = Inr []"
    "getVideoTranscript env_no_fragments (js ''dQw4w9WgXcQ'') = Inr (Some [])"
    by (simp_all add: getVideoTranscript_def env_no_fragments_def)
  then have f: "fetch_transcript env_no_fragments (js ''dQw4w9WgXcQ'') = Some []"
    by (simp add: fetch_transcript_def)
  have s: "statusCode (handler env_no_fragments example_event) = 200"
    by (simp add: example_handler example_generates)
  have q: "quality ''content_richness'' (handler env_no_fragments example_event)
      = Some (JStr (js ''Medium''))"
    by (simp add: example_handler example_generates quality_of_result f truthy_def)
  have "js ''Medium'' \<noteq> js ''High''"
    by (simp add: js_def)
  with t s q show ?thesis by simp
qed

lemma fetch_metadata_update [simp]:
  "fetch_metadata (e\<lparr>fetchTranscript := f\<rparr>) v = fetch_metadata e v"
  by (simp add: fetch_metadata_def getVideoMetadata_def fetch_video_def split: option.split)

lemma build_prompt_update [simp]:
  "build_prompt (e\<lparr>fetchTranscript := f\<rparr>) md tr b = build_prompt e md tr b"
  by (simp add: build_prompt_def prompt_template_def video_details_def
      cong: option.case_cong if_cong)

lemma analysis_result_update [simp]:
  "analysis_result (e\<lparr>fetchTranscript := f\<rparr>) b link vid md tr s =
   analysis_result e b link vid md tr s"
  by (simp add: analysis_result_def)

lemma transcript_section_empty: "transcript_section (Some []) = transcript_section None"
  by (simp add: transcript_section_def)

lemma build_prompt_empty: "build_prompt e md (Some []) b = build_prompt e md None b"
  by (simp add: build_prompt_def prompt_template_def transcript_section_empty)

lemma analysis_result_empty:
  "analysis_result e b link vid md (Some []) s = analysis_result e b link vid md None s"
  by (simp add: analysis_result_def truthy_def)

lemma analyze_empty_transcript:
  assumes "fetchTranscript e vid = Inr []"
  shows "analyze e b link vid = analyze (e\<lparr>fetchTranscript := (fetchTranscript e)(vid := Inl err)\<rparr>) b link vid"
proof -
  have 1: "fetch_transcript e vid = Some []"
    using assms by (simp add: fetch_transcript_def getVideoTranscript_def)
  have 2: "fetch_transcript (e\<lparr>fetchTranscript := (fetchTranscript e)(vid := Inl err)\<rparr>) vid = None"
    by (simp add: fetch_transcript_def getVideoTranscript_def)
  show ?thesis
    by (simp add: analyze_def Let_def 1 2 build_prompt_empty analysis_result_empty
        cong: sum.case_cong)
qed

text \<open>
  Claim C10. When the transcript service succeeds with zero fragments, the fetcher
  returns the empty string. The prompt that the handler composes and hands to the model
  then carries, in the place of the transcript, the fixed no-transcript statement, and
  it is the prompt composed for an absent transcript. The handler's answer is the one it
  gives when the service throws; in a 200 answer \<open>has_transcript\<close> is false,
  \<open>transcript_length\<close> is 0 and \<open>content_richness\<close> is "Medium".
\<close>

theorem empty_transcript_as_absent:
  assumes "fetchTranscript e vid = Inr []"
    and "parsed_body ev = Inr b" and "youtube_link b = Some link"
    and "extractVideoId link = Some vid"
  shows "getVideoTranscript e vid = Inr (Some []) \<and>
         transcript_section (fetch_transcript e vid) = no_transcript_statement \<and>
         (\<exists>instructions.
            build_prompt e (fetch_metadata e vid) (fetch_transcript e vid) b =
              video_details e (fetch_metadata e vid)
              @ js ''\<newline>\<newline>**'' @ page @ js '' DESCRIPTION:**\<newline>''
              @ description_section (fetch_metadata e vid)
              @ js ''\<newline>\<newline>''
              @ tags_section (fetch_metadata e vid)
              @ js ''\<newline>\<newline>''
              @ js ''**'' @ memo
              @ js '' TRANSCRIPT:** Not available (video may not have captions)''
              @ js ''\<newline>\<newline>'' @ analysis_request @ instructions) \<and>
         build_prompt e (fetch_metadata e vid) (fetch_transcript e vid) b =
           build_prompt e (fetch_metadata e vid) None b \<and>
         (httpMethod ev = js ''POST'' \<longrightarrow>
            handler e ev =
              (case generateContent e (modelName b)
                      (build_prompt e (fetch_metadata e vid) (fetch_transcript e vid) b)
                      (generation_config b) of
                 Inl (Error msg) \<Rightarrow>
                   \<lparr>statusCode = 500, headers = cors_headers,
                    body = Some (JObj [(''error'', JStr (js ''Failed to analyze video'')),
                                       (''details'', JStr msg)])\<rparr>
               | Inr g \<Rightarrow>
                   \<lparr>statusCode = 200, headers = cors_headers,
                    body = Some (analysis_result e b link vid (fetch_metadata e vid)
                             (fetch_transcript e vid)
                             (if js_includes (modelName b) (js ''2.0'')
                              then cleanFormatting g else g))\<rparr>)) \<and>
         handler e ev = handler (e\<lparr>fetchTranscript := (fetchTranscript e)(vid := Inl err)\<rparr>) ev \<and>
         (httpMethod ev = js ''POST'' \<and> statusCode (handler e ev) = 200 \<longrightarrow>
            quality ''has_transcript'' (handler e ev) = Some (JBool False) \<and>
            quality ''transcript_length'' (handler e ev) = Some (JNum 0) \<and>
            quality ''content_richness'' (handler e ev) = Some (JStr (js ''Medium'')))"
proof (intro conjI impI)
  show t: "getVideoTranscript e vid = Inr (Some [])"
    using assms(1) by (simp add: getVideoTranscript_def)
  have f: "fetch_transcript e vid = Some []"
    using t by (simp add: fetch_transcript_def)
  show "transcript_section (fetch_transcript e vid) = no_transcript_statement"
    by (simp add: f transcript_section_def)
  show "\<exists>instructions.
            build_prompt e (fetch_metadata e vid) (fetch_transcript e vid) b =
              video_details e (fetch_metadata e vid)
              @ js ''\<newline>\<newline>**'' @ page @ js '' DESCRIPTION:**\<newline>''
              @ description_section (fetch_metadata e vid)
              @ js ''\<newline>\<newline>''
              @ tags_section (fetch_metadata e vid)
              @ js ''\<newline>\<newline>''
              @ js ''**'' @ memo
              @ js '' TRANSCRIPT:** Not available (video may not have captions)''
              @ js ''\<newline>\<newline>'' @ analysis_request @ instructions"
    unfolding build_prompt_def prompt_template_def f transcript_section_empty
    by (simp only: transcript_section_def no_transcript_statement_def option.case append_assoc)
      blast
  show "build_prompt e (fetch_metadata e vid) (fetch_transcript e vid) b =
        build_prompt e (fetch_metadata e vid) None b"
    by (simp add: f build_prompt_empty)
  let ?e' = "e\<lparr>fetchTranscript := (fetchTranscript e)(vid := Inl err)\<rparr>"
  have "summarize e ev = summarize ?e' ev"
    using assms(2-4) analyze_empty_transcript [OF assms(1)]
    by (simp add: summarize_def)
  then show "handler e ev = handler ?e' ev"
    by (simp add: handler_def health_def)
  {
    assume p: "httpMethod ev = js ''POST''"
    show "handler e ev =
              (case generateContent e (modelName b)
                      (build_prompt e (fetch_metadata e vid) (fetch_transcript e vid) b)
                      (generation_config b) of
                 Inl (Error msg) \<Rightarrow>
                   \<lparr>statusCode = 500, headers = cors_headers,
                    body = Some (JObj [(''error'', JStr (js ''Failed to analyze video'')),
                                       (''details'', JStr msg)])\<rparr>
               | Inr g \<Rightarrow>
                   \<lparr>statusCode = 200, headers = cors_headers,
                    body = Some (analysis_result e b link vid (fetch_metadata e vid)
                             (fetch_transcript e vid)
                             (if js_includes (modelName b) (js ''2.0'')
                              then cleanFormatting g else g))\<rparr>)"
      by (rule handler_valid_post [OF p assms(2-4)])
  }
  assume a: "httpMethod ev = js ''POST'' \<and> statusCode (handler e ev) = 200"
  then obtain g where h: "handler e ev =
         \<lparr>statusCode = 200, headers = cors_headers,
          body = Some (analysis_result e b link vid (fetch_metadata e vid)
                   (fetch_transcript e vid)
                   (if js_includes (modelName b) (js ''2.0'') then cleanFormatting g else g))\<rparr>"
    using handler_post_200 [of ev e] assms(2-4) by auto
  show "quality ''has_transcript'' (handler e ev) = Some (JBool False)"
    by (simp only: h quality_of_result) (simp add: f truthy_def)
  show "quality ''transcript_length'' (handler e ev) = Some (JNum 0)"
    by (simp only: h quality_of_result) (simp add: f truthy_def)
  show "quality ''content_richness'' (handler e ev) = Some (JStr (js ''Medium''))"
    by (simp only: h quality_of_result) (simp add: f truthy_def)
qed

theorem empty_transcript_as_absent_witness:
  "fetchTranscript env_no_fragments (js ''dQw4w9WgXcQ'') = Inr [] \<and>
   parsed_body example_event = Inr example_body \<and>
   youtube_link example_body = Some (js ''https://youtu.be/dQw4w9WgXcQ'') \<and>
   extractVideoId (js ''https://youtu.be/dQw4w9WgXcQ'') = Some (js ''dQw4w9WgXcQ'') \<and>
   getVideoTranscript env_no_fragments (js ''dQw4w9WgXcQ'') = Inr (Some []) \<and>
   transcript_section (fetch_transcript env_no_fragments (js ''dQw4w9WgXcQ''))
     = no_transcript_statement \<and>
   sublist
     (js ''**'' @ memo @ js '' TRANSCRIPT:** Not available (video may not have captions)'')
     (build_prompt env_no_fragments (fetch_metadata env_no_fragments (js ''dQw4w9WgXcQ''))
        (fetch_transcript env_no_fragments (js ''dQw4w9WgXcQ'')) example_body) \<and>
   httpMethod example_event = js ''POST'' \<and>
   statusCode (handler env_no_fragments example_event) = 200 \<and>
   quality ''has_transcript'' (handler env_no_fragments example_event) = Some (JBool False) \<and>
   quality ''transcript_length'' (handler env_no_fragments example_event) = Some (JNum 0) \<and>
   quality ''content_richness'' (handler env_no_fragments example_event)
     = Some (JStr (js ''Medium''))"
proof -
  have 1: "fetchTranscript env_no_fragments (js ''dQw4w9WgXcQ'') = Inr []"
    by (simp add: env_no_fragments_def)
  have s: "statusCode (handler env_no_fragments example_event) = 200"
    by (simp add: example_handler example_generates)
  note c = empty_transcript_as_absent [OF 1 example_event_facts(2,3) example_video_id,
      of "Error []"]
  let ?md = "fetch_metadata env_no_fragments (js ''dQw4w9WgXcQ'')"
  let ?n = "js ''**'' @ memo @ js '' TRANSCRIPT:** Not available (video may not have captions)''"
  from c [THEN conjunct2, THEN conjunct2, THEN conjunct1] obtain instructions where
    "build_prompt env_no_fragments ?md
       (fetch_transcript env_no_fragments (js ''dQw4w9WgXcQ'')) example_body =
     video_details env_no_fragments ?md
      @ js ''\<newline>\<newline>**'' @ page @ js '' DESCRIPTION:**\<newline>''
      @ description_section ?md @ js ''\<newline>\<newline>'' @ tags_section ?md @ js ''\<newline>\<newline>''
      @ js ''**'' @ memo @ js '' TRANSCRIPT:** Not available (video may not have captions)''
      @ js ''\<newline>\<newline>'' @ analysis_request @ instructions"
    by blast
  then have "build_prompt env_no_fragments ?md
       (fetch_transcript env_no_fragments (js ''dQw4w9WgXcQ'')) example_body =
     (video_details env_no_fragments ?md
      @ js ''\<newline>\<newline>**'' @ page @ js '' DESCRIPTION:**\<newline>''
      @ description_section ?md @ js ''\<newline>\<newline>'' @ tags_section ?md @ js ''\<newline>\<newline>'')
     @ ?n @ (js ''\<newline>\<newline>'' @ analysis_request @ instructions)"
    by (simp only: append_assoc)
  then have p: "sublist ?n
     (build_prompt env_no_fragments ?md
        (fetch_transcript env_no_fragments (js ''dQw4w9WgXcQ'')) example_body)"
    by (simp only: sublist_appendI)
  have t: "getVideoTranscript env_no_fragments (js ''dQw4w9WgXcQ'') = Inr (Some [])"
    "transcript_section (fetch_transcript env_no_fragments (js ''dQw4w9WgXcQ''))
       = no_transcript_statement"
    using c by blast+
  have q: "quality ''has_transcript'' (handler env_no_fragments example_event)
        = Some (JBool False)"
    "quality ''transcript_length'' (handler env_no_fragments example_event) = Some (JNum 0)"
    "quality ''content_richness'' (handler env_no_fragments example_event)
        = Some (JStr (js ''Medium''))"
    using c s example_event_facts(1) by blast+
  show ?thesis
    using 1 example_event_facts example_video_id t p s q by blast
qed







end
